theory Spec2Isabelle
  imports Main
begin

section \<open>Values, options and errors\<close>

text \<open>
  A shallow embedding of \<^verbatim>\<open>AbstractQueryInterfaceTypeScript\<close>
  (packages/core/src/dialects/abstract/query-interface-typescript.ts).
  Every \<^verbatim>\<open>await\<close> of the source is sequential, so an async method is a function from
  the state before the call to its outcome (\<open>Inl\<close> a thrown error, \<open>Inr\<close> the resolved
  value) and the state after it.
\<close>

text \<open>JavaScript values, as far as query results and bind parameters need them.\<close>

datatype jsval =
    JUndefined
  | JNull
  | JBool bool
  | JNum int
  | JStr string
  | JArr "jsval list"
  | JObj "(string \<times> jsval) list"

text \<open>JavaScript truthiness (\<^verbatim>\<open>x ? a : b\<close>, \<^verbatim>\<open>if (x)\<close>).\<close>

fun truthy :: "jsval \<Rightarrow> bool" where
  "truthy JUndefined = False"
| "truthy JNull = False"
| "truthy (JBool b) = b"
| "truthy (JNum n) = (n \<noteq> 0)"
| "truthy (JStr s) = (s \<noteq> [])"
| "truthy (JArr xs) = True"
| "truthy (JObj kvs) = True"

text \<open>Thrown values: a plain \<^verbatim>\<open>Error\<close> with its message, a sequelize \<^verbatim>\<open>BaseError\<close>
  with the \<^verbatim>\<open>code\<close> of its \<^verbatim>\<open>cause\<close> (if any), and the runtime's \<^verbatim>\<open>TypeError\<close>.\<close>

datatype error =
    Error string
  | BaseError "string option"
  | TypeError string

type_synonym conn = nat
type_synonym transaction = nat
type_synonym addr = nat

datatype query_type = RAW | SELECT | DESCRIBE

text \<open>
  The option objects of the methods (\<^verbatim>\<open>QueryRawOptions\<close>, \<^verbatim>\<open>DescribeTableOptions\<close>, ...):
  an absent key is \<open>None\<close>. \<open>extra\<close> holds own properties with other keys.
\<close>

record options =
  connection :: "conn option"
  transaction :: "transaction option"
  bind :: "jsval option"
  raw :: "bool option"
  qtype :: "query_type option"
  opt_schema :: "string option"
  schemaDelimiter :: "string option"
  extra :: "(string \<times> jsval) list"

definition empty_options :: options where
  "empty_options = \<lparr> connection = None, transaction = None, bind = None, raw = None,
     qtype = None, opt_schema = None, schemaDelimiter = None, extra = [] \<rparr>"

text \<open>\<^verbatim>\<open>{ ...options }\<close> for an \<^verbatim>\<open>options\<close> that may be \<^verbatim>\<open>undefined\<close>.\<close>

definition spread :: "options option \<Rightarrow> options" where
  "spread opts = (case opts of None \<Rightarrow> empty_options | Some o1 \<Rightarrow> o1)"

record table_ref =
  tableName :: string
  schema :: "string option"
  delimiter :: "string option"

datatype table_name_or_model =
    TnString string
  | TnTable table_ref
  | TnModel string

text \<open>What \<^verbatim>\<open>dropSchemaQuery\<close> returns: \<^verbatim>\<open>string | QueryWithBindParams\<close>.\<close>

datatype drop_schema_query =
    PlainSql string
  | WithBind string jsval

datatype deprecation = NoSchemaParameter | NoSchemaDelimiterParameter

section \<open>State, trace and collaborators\<close>

text \<open>
  The methods act on three things: a store of option objects (\<open>heap\<close>, an object's address
  is its index; allocation appends), the state \<open>world\<close> of everything outside this class
  (backend, pool, ambient context), and a ghost \<open>trace\<close> of the calls the methods make
  to their collaborators, in order.
\<close>

datatype event =
    SetTransactionFromCls
  | Lease conn
  | LeaseFailed error
  | Release conn
  | Toggle bool "options option"
  | QueryRaw string "options option"
  | Callback "conn option"
  | Warn deprecation

record 'w state =
  heap :: "options list"
  world :: 'w
  trace :: "event list"

text \<open>
  The collaborators whose code is not part of this class are parameters: \<open>queryRaw\<close> of
  \<^verbatim>\<open>Sequelize\<close>, the connection provider behind \<^verbatim>\<open>withConnection\<close>, the query generator,
  and \<open>transactionFromCls\<close>: what \<^verbatim>\<open>setTransactionFromCls\<close> makes of the options object it
  is given (it may throw). They read the options they are handed and act on \<open>world\<close>
  only.
\<close>

record 'w env =
  queryRaw :: "string \<Rightarrow> options option \<Rightarrow> 'w \<Rightarrow> (error + jsval) \<times> 'w"
  lease :: "'w \<Rightarrow> (error + conn) \<times> 'w"
  release :: "conn \<Rightarrow> 'w \<Rightarrow> 'w"
  transactionFromCls :: "options \<Rightarrow> 'w \<Rightarrow> error + options"
  createSchemaQuery :: "string \<Rightarrow> options option \<Rightarrow> string"
  dropSchemaQuery :: "string \<Rightarrow> drop_schema_query"
  listSchemasQuery :: "options option \<Rightarrow> string"
  extractTableDetails :: "table_name_or_model \<Rightarrow> table_ref"
  describeTableQuery :: "table_ref \<Rightarrow> string"
  getToggleForeignKeyChecksQuery :: "bool \<Rightarrow> string"

definition emit :: "event \<Rightarrow> 'w state \<Rightarrow> 'w state" where
  "emit e st = st\<lparr> trace := trace st @ [e] \<rparr>"

definition alloc :: "options \<Rightarrow> 'w state \<Rightarrow> addr \<times> 'w state" where
  "alloc o1 st = (length (heap st), st\<lparr> heap := heap st @ [o1] \<rparr>)"

definition deref :: "'w state \<Rightarrow> addr \<Rightarrow> options" where
  "deref st a = heap st ! a"

text \<open>\<^verbatim>\<open>await this.sequelize.queryRaw(sql, options)\<close>.\<close>

definition call_queryRaw ::
  "'w env \<Rightarrow> string \<Rightarrow> options option \<Rightarrow> 'w state \<Rightarrow> (error + jsval) \<times> 'w state" where
  "call_queryRaw env sql opts st =
     (let st1 = emit (QueryRaw sql opts) st;
          (r, w) = queryRaw env sql opts (world st1)
      in (r, st1\<lparr> world := w \<rparr>))"

text \<open>
  \<^verbatim>\<open>try { body } finally { fin }\<close> with an awaited \<open>fin\<close>: \<open>fin\<close> runs whatever \<open>body\<close>
  did; when \<open>fin\<close> throws, its error replaces the outcome of \<open>body\<close>.
\<close>

definition try_finally ::
  "('s \<Rightarrow> (error + 'a) \<times> 's) \<Rightarrow> ('s \<Rightarrow> (error + 'b) \<times> 's) \<Rightarrow> 's \<Rightarrow> (error + 'a) \<times> 's" where
  "try_finally body fin st =
     (let (r, st1) = body st;
          (f, st2) = fin st1
      in (case f of Inl e \<Rightarrow> (Inl e, st2) | Inr u \<Rightarrow> (r, st2)))"

section \<open>Schema operations\<close>

text \<open>\<^verbatim>\<open>createSchema(schema, options)\<close>: the generated statement is run with the caller's
  options.\<close>

definition createSchema ::
  "'w env \<Rightarrow> string \<Rightarrow> options option \<Rightarrow> 'w state \<Rightarrow> (error + unit) \<times> 'w state" where
  "createSchema env schema_name opts st =
     (let sql = createSchemaQuery env schema_name opts;
          (r, st1) = call_queryRaw env sql opts st
      in (map_sum id (\<lambda>v. ()) r, st1))"



text \<open>Reading a property: \<^verbatim>\<open>value.key\<close>. On \<^verbatim>\<open>null\<close> and \<^verbatim>\<open>undefined\<close> it throws; a
  primitive or an array has no such own key and gives \<^verbatim>\<open>undefined\<close>.\<close>

fun get_prop :: "jsval \<Rightarrow> string \<Rightarrow> error + jsval" where
  "get_prop JUndefined k = Inl (TypeError ''Cannot read properties of undefined'')"
| "get_prop JNull k = Inl (TypeError ''Cannot read properties of null'')"
| "get_prop (JObj kvs) k = Inr (case map_of kvs k of None \<Rightarrow> JUndefined | Some v \<Rightarrow> v)"
| "get_prop v k = Inr JUndefined"

text \<open>The callback of \<^verbatim>\<open>flatMap\<close> in \<^verbatim>\<open>showAllSchemas\<close>:
  \<^verbatim>\<open>value => (value.schema_name ? value.schema_name : value)\<close>.\<close>

definition schema_name_of :: "jsval \<Rightarrow> error + jsval" where
  "schema_name_of v =
     (case get_prop v ''schema_name'' of
        Inl e \<Rightarrow> Inl e
      | Inr n \<Rightarrow> Inr (if truthy n then n else v))"

text \<open>\<^verbatim>\<open>Array.prototype.flatMap\<close>: an array returned by the callback is spliced in (one
  level), anything else is appended; the first throw of the callback ends it.\<close>

fun flatMap :: "(jsval \<Rightarrow> error + jsval) \<Rightarrow> jsval list \<Rightarrow> error + jsval list" where
  "flatMap f [] = Inr []"
| "flatMap f (x # xs) =
     (case f x of
        Inl e \<Rightarrow> Inl e
      | Inr v \<Rightarrow>
          (case flatMap f xs of
             Inl e \<Rightarrow> Inl e
           | Inr vs \<Rightarrow> Inr ((case v of JArr ys \<Rightarrow> ys | _ \<Rightarrow> [v]) @ vs)))"

definition flatten_schemas :: "jsval \<Rightarrow> error + jsval list" where
  "flatten_schemas schemaNames =
     (case schemaNames of
        JArr rows \<Rightarrow> flatMap schema_name_of rows
      | _ \<Rightarrow> Inl (TypeError ''schemaNames.flatMap is not a function''))"

definition showAllSchemas ::
  "'w env \<Rightarrow> options option \<Rightarrow> 'w state \<Rightarrow> (error + jsval list) \<times> 'w state" where
  "showAllSchemas env opts st =
     (let showSchemasSql = listSchemasQuery env opts;
          queryRawOptions = (spread opts)\<lparr> raw := Some True, qtype := Some SELECT \<rparr>;
          (r, st1) = call_queryRaw env showSchemasSql (Some queryRawOptions) st
      in (case r of
            Inl e \<Rightarrow> (Inl e, st1)
          | Inr schemaNames \<Rightarrow> (flatten_schemas schemaNames, st1)))"

section \<open>describeTable\<close>

text \<open>The second argument of \<^verbatim>\<open>describeTable\<close>: absent, the legacy string, or an object.\<close>

datatype describe_options =
    DescribeUndefined
  | DescribeString string
  | DescribeObject options

text \<open>Truthiness of an optional string field (\<^verbatim>\<open>if (options.schema)\<close>).\<close>

definition truthy_str :: "string option \<Rightarrow> bool" where
  "truthy_str s = (case s of None \<Rightarrow> False | Some t \<Rightarrow> t \<noteq> [])"

function string_of_nat :: "nat \<Rightarrow> string" where
  "string_of_nat n =
     (if n < 10 then [char_of (48 + n)]
      else string_of_nat (n div 10) @ [char_of (48 + n mod 10)])"
  by pat_completeness auto
termination
  by (relation "measure id") auto

declare string_of_nat.simps [simp del]

text \<open>\<^verbatim>\<open>{ ...options }\<close> for the second argument: spreading a string gives its characters
  under their indices.\<close>

definition spread_describe :: "describe_options \<Rightarrow> options" where
  "spread_describe d =
     (case d of
        DescribeUndefined \<Rightarrow> empty_options
      | DescribeString s \<Rightarrow>
          empty_options\<lparr> extra := map (\<lambda>i. (string_of_nat i, JStr [s ! i])) [0..<length s] \<rparr>
      | DescribeObject o1 \<Rightarrow> o1)"

text \<open>Lines 124 to 139: the deprecated overrides of the table reference, with the
  deprecation functions they call, in order.\<close>

definition apply_overrides :: "table_ref \<Rightarrow> describe_options \<Rightarrow> table_ref \<times> deprecation list" where
  "apply_overrides table d =
     (case d of
        DescribeUndefined \<Rightarrow> (table, [])
      | DescribeString s \<Rightarrow> (table\<lparr> schema := Some s \<rparr>, [NoSchemaParameter])
      | DescribeObject o1 \<Rightarrow>
          (let (t1, w1) =
                 (if truthy_str (opt_schema o1)
                  then (table\<lparr> schema := opt_schema o1 \<rparr>, [NoSchemaParameter])
                  else (table, []))
           in (if truthy_str (schemaDelimiter o1)
               then (t1\<lparr> delimiter := schemaDelimiter o1 \<rparr>, w1 @ [NoSchemaDelimiterParameter])
               else (t1, w1))))"

definition not_found_message :: "table_ref \<Rightarrow> string" where
  "not_found_message table =
     ''No description found for table '' @ tableName table
       @ (if truthy_str (schema table) then '' in schema '' @ the (schema table) else [])
       @ ''. Check the table name and schema; remember, they _are_ case sensitive.''"

text \<open>lodash \<^verbatim>\<open>isEmpty\<close>: true for \<^verbatim>\<open>null\<close>, \<^verbatim>\<open>undefined\<close>, numbers and booleans, and for a
  string, array or object without elements.\<close>

fun isEmpty :: "jsval \<Rightarrow> bool" where
  "isEmpty (JStr s) = (s = [])"
| "isEmpty (JArr xs) = (xs = [])"
| "isEmpty (JObj kvs) = (kvs = [])"
| "isEmpty v = True"

text \<open>The \<^verbatim>\<open>catch\<close> block of \<^verbatim>\<open>describeTable\<close>.\<close>

definition describe_catch :: "table_ref \<Rightarrow> error \<Rightarrow> error" where
  "describe_catch table err =
     (case err of
        BaseError code \<Rightarrow>
          (if code = Some ''ER_NO_SUCH_TABLE'' then Error (not_found_message table) else err)
      | _ \<Rightarrow> err)"

text \<open>The \<^verbatim>\<open>try\<close> block after the query settled, wrapped in its \<^verbatim>\<open>catch\<close>: the error thrown
  for empty data is thrown inside the \<^verbatim>\<open>try\<close> and so passes through the \<^verbatim>\<open>catch\<close> too.\<close>

definition describe_outcome :: "table_ref \<Rightarrow> error + jsval \<Rightarrow> error + jsval" where
  "describe_outcome table r =
     (case r of
        Inl e \<Rightarrow> Inl (describe_catch table e)
      | Inr data \<Rightarrow>
          (if isEmpty data then Inl (describe_catch table (Error (not_found_message table)))
           else Inr data))"

definition describeTable ::
  "'w env \<Rightarrow> table_name_or_model \<Rightarrow> describe_options \<Rightarrow> 'w state \<Rightarrow> (error + jsval) \<times> 'w state" where
  "describeTable env tn d st =
     (let (table, warnings) = apply_overrides (extractTableDetails env tn) d;
          st1 = st\<lparr> trace := trace st @ map Warn warnings \<rparr>;
          sql = describeTableQuery env table;
          queryOptions = (spread_describe d)\<lparr> qtype := Some DESCRIBE \<rparr>;
          (r, st2) = call_queryRaw env sql (Some queryOptions) st1
      in (describe_outcome table r, st2))"

section \<open>Foreign key checks\<close>

text \<open>\<^verbatim>\<open>unsafeToggleForeignKeyChecks(enable, options)\<close>.\<close>

definition unsafeToggleForeignKeyChecks ::
  "'w env \<Rightarrow> bool \<Rightarrow> options option \<Rightarrow> 'w state \<Rightarrow> (error + unit) \<times> 'w state" where
  "unsafeToggleForeignKeyChecks env enable opts st =
     (let (r, st1) = call_queryRaw env (getToggleForeignKeyChecksQuery env enable) opts
                       (emit (Toggle enable opts) st)
      in (map_sum id (\<lambda>v. ()) r, st1))"

text \<open>\<^verbatim>\<open>await cb(options.connection!)\<close>: the callback is the caller's code; it gets the
  connection (whatever the field holds: \<^verbatim>\<open>!\<close> checks nothing at run time) and acts on
  \<open>world\<close>.\<close>

definition run_callback ::
  "(conn option \<Rightarrow> 'w \<Rightarrow> (error + 'a) \<times> 'w) \<Rightarrow> conn option \<Rightarrow> 'w state \<Rightarrow> (error + 'a) \<times> 'w state" where
  "run_callback cb c st =
     (let st1 = emit (Callback c) st;
          (r, w) = cb c (world st1)
      in (r, st1\<lparr> world := w \<rparr>))"

text \<open>The \<^verbatim>\<open>try\<close> block of \<^verbatim>\<open>#withoutForeignKeyChecks\<close>: when the disabling call throws, the
  callback is not called.\<close>

definition fk_body ::
  "'w env \<Rightarrow> addr \<Rightarrow> (conn option \<Rightarrow> 'w \<Rightarrow> (error + 'a) \<times> 'w) \<Rightarrow> 'w state \<Rightarrow> (error + 'a) \<times> 'w state" where
  "fk_body env a cb st =
     (let (r, st1) = unsafeToggleForeignKeyChecks env False (Some (deref st a)) st
      in (case r of
            Inl e \<Rightarrow> (Inl e, st1)
          | Inr u \<Rightarrow> run_callback cb (connection (deref st1 a)) st1))"

text \<open>The \<^verbatim>\<open>finally\<close> block of \<^verbatim>\<open>#withoutForeignKeyChecks\<close>.\<close>

definition fk_restore :: "'w env \<Rightarrow> addr \<Rightarrow> 'w state \<Rightarrow> (error + unit) \<times> 'w state" where
  "fk_restore env a st = unsafeToggleForeignKeyChecks env True (Some (deref st a)) st"

text \<open>\<^verbatim>\<open>#withoutForeignKeyChecks(options, cb)\<close>, \<open>a\<close> the address of \<^verbatim>\<open>options\<close>.\<close>

definition withoutForeignKeyChecks_inner ::
  "'w env \<Rightarrow> addr \<Rightarrow> (conn option \<Rightarrow> 'w \<Rightarrow> (error + 'a) \<times> 'w) \<Rightarrow> 'w state \<Rightarrow> (error + 'a) \<times> 'w state" where
  "withoutForeignKeyChecks_inner env a cb st = try_finally (fk_body env a cb) (fk_restore env a) st"

text \<open>\<^verbatim>\<open>setTransactionFromCls(options, this.sequelize)\<close>: it works on the object it is given,
  in place.\<close>

definition setTransactionFromCls :: "'w env \<Rightarrow> addr \<Rightarrow> 'w state \<Rightarrow> (error + unit) \<times> 'w state" where
  "setTransactionFromCls env a st =
     (let st1 = emit SetTransactionFromCls st
      in (case transactionFromCls env (deref st1 a) (world st1) of
            Inl e \<Rightarrow> (Inl e, st1)
          | Inr o1 \<Rightarrow> (Inr (), st1\<lparr> heap := (heap st1)[a := o1] \<rparr>)))"

text \<open>
  Modelled from the spec: \<^verbatim>\<open>Sequelize.withConnection\<close> is not among the sources. Section
  4.1, case 3, and section 6: \<^verbatim>\<open>lease() -> Handle | ConnectionError\<close>,
  \<^verbatim>\<open>release(Handle) -> void\<close>; a handle is leased for the duration of the call and
  released unconditionally afterward, on success or failure.
\<close>

definition withConnection ::
  "'w env \<Rightarrow> (conn \<Rightarrow> 'w state \<Rightarrow> (error + 'a) \<times> 'w state) \<Rightarrow> 'w state \<Rightarrow> (error + 'a) \<times> 'w state" where
  "withConnection env f st =
     (case lease env (world st) of
        (Inl e, w) \<Rightarrow> (Inl e, emit (LeaseFailed e) (st\<lparr> world := w \<rparr>))
      | (Inr c, w) \<Rightarrow>
          (let (r, st1) = f c (emit (Lease c) (st\<lparr> world := w \<rparr>))
           in (r, emit (Release c) (st1\<lparr> world := release env c (world st1) \<rparr>))))"

text \<open>The arrow function handed to \<^verbatim>\<open>withConnection\<close>:
  \<^verbatim>\<open>connection => this.#withoutForeignKeyChecks({ ...options, connection }, callback)\<close>.\<close>

definition with_leased ::
  "'w env \<Rightarrow> addr \<Rightarrow> (conn option \<Rightarrow> 'w \<Rightarrow> (error + 'a) \<times> 'w) \<Rightarrow> conn \<Rightarrow> 'w state \<Rightarrow> (error + 'a) \<times> 'w state" where
  "with_leased env a cb c st =
     (let (a1, st1) = alloc ((deref st a)\<lparr> connection := Some c \<rparr>) st
      in withoutForeignKeyChecks_inner env a1 cb st1)"

text \<open>
  \<^verbatim>\<open>withoutForeignKeyChecks(optionsOrCallback, maybeCallback)\<close>. The first argument is
  \<open>None\<close> for the overload that takes the callback alone, and the address of the
  caller's options object otherwise; \<open>copied_options\<close> is \<^verbatim>\<open>{}\<close> in the first case and
  \<^verbatim>\<open>{ ...optionsOrCallback }\<close> in the second, and it is allocated as a new object.
\<close>

definition copied_options :: "'w state \<Rightarrow> addr option \<Rightarrow> options" where
  "copied_options st arg = (case arg of None \<Rightarrow> empty_options | Some caller \<Rightarrow> deref st caller)"

definition withoutForeignKeyChecks ::
  "'w env \<Rightarrow> addr option \<Rightarrow> (conn option \<Rightarrow> 'w \<Rightarrow> (error + 'a) \<times> 'w) \<Rightarrow> 'w state \<Rightarrow> (error + 'a) \<times> 'w state" where
  "withoutForeignKeyChecks env arg cb st =
     (let (a, st1) = alloc (copied_options st arg) st;
          (r, st2) = setTransactionFromCls env a st1
      in (case r of
            Inl e \<Rightarrow> (Inl e, st2)
          | Inr u \<Rightarrow>
              (if connection (deref st2 a) \<noteq> None
               then withoutForeignKeyChecks_inner env a cb st2
               else withConnection env (with_leased env a cb) st2)))"

section \<open>Reading traces\<close>

text \<open>The calls one run of \<^verbatim>\<open>#withoutForeignKeyChecks\<close> with options \<open>o1\<close> makes; \<open>called\<close>
  says whether the callback was reached.\<close>

definition fk_scope_events :: "'w env \<Rightarrow> options \<Rightarrow> bool \<Rightarrow> event list" where
  "fk_scope_events env o1 called =
     [Toggle False (Some o1), QueryRaw (getToggleForeignKeyChecksQuery env False) (Some o1)]
     @ (if called then [Callback (connection o1)] else [])
     @ [Toggle True (Some o1), QueryRaw (getToggleForeignKeyChecksQuery env True) (Some o1)]"

text \<open>The state once \<^verbatim>\<open>setTransactionFromCls\<close> has run on the copy \<open>o1\<close> of the options.\<close>

definition after_copy :: "'w state \<Rightarrow> options \<Rightarrow> 'w state" where
  "after_copy st o1 = st\<lparr> heap := heap st @ [o1], trace := trace st @ [SetTransactionFromCls] \<rparr>"

section \<open>Equivalence of executed statements\<close>




section \<open>Rows of schema names\<close>

text \<open>The name a raw row stands for in the spec's reading of \<^verbatim>\<open>showAllSchemas\<close>: a bare
  string is its own name, a mapping names its non-empty \<^verbatim>\<open>schema_name\<close> string.\<close>

fun row_name :: "jsval \<Rightarrow> string option" where
  "row_name (JStr s) = Some s"
| "row_name (JObj kvs) =
     (case map_of kvs ''schema_name'' of
        Some (JStr s) \<Rightarrow> if s = [] then None else Some s
      | _ \<Rightarrow> None)"
| "row_name v = None"

section \<open>A backend for foreign key checks\<close>

text \<open>The backend keeps, for each connection, whether its foreign key checks are on, and
  the idle handles of the pool.\<close>

record backend =
  fk_checks :: "conn \<Rightarrow> bool"
  idle :: "conn list"

text \<open>
  Modelled from the spec: the driver and the backend behind \<^verbatim>\<open>queryRaw\<close> are not among the
  sources. Section 6: the driver executes SQL text against a handle; section 3 (Foreign-Key-Check
  Scope) and section 6 (\<^verbatim>\<open>getToggleForeignKeyChecksQuery(enable)\<close>): the generated statement
  sets the checks of that one connection to \<^verbatim>\<open>enable\<close>. Other statements leave them alone.
\<close>

definition spec_execute ::
  "(bool \<Rightarrow> string) \<Rightarrow> conn \<Rightarrow> string \<Rightarrow> backend \<Rightarrow> (error + jsval) \<times> backend" where
  "spec_execute gen c sql w =
     (if sql = gen True then (Inr (JArr [JArr [], JNum 0]), w\<lparr> fk_checks := (fk_checks w)(c := True) \<rparr>)
      else if sql = gen False then (Inr (JArr [JArr [], JNum 0]), w\<lparr> fk_checks := (fk_checks w)(c := False) \<rparr>)
      else (Inr (JArr [JArr [], JNum 0]), w))"

text \<open>
  Modelled from the spec: \<^verbatim>\<open>Sequelize.queryRaw\<close> is not among the sources. Section 4.1,
  connection resolution, first match wins: the connection of the options; else the connection
  bound to their transaction (\<open>bound\<close>); else a handle leased for the call and released after
  it, with a \<^verbatim>\<open>ConnectionError\<close> when none can be leased.
\<close>

definition spec_queryRaw ::
  "(bool \<Rightarrow> string) \<Rightarrow> (transaction \<Rightarrow> conn) \<Rightarrow> string \<Rightarrow> options option \<Rightarrow> backend
     \<Rightarrow> (error + jsval) \<times> backend" where
  "spec_queryRaw gen bound sql opts w =
     (case connection (spread opts) of
        Some c \<Rightarrow> spec_execute gen c sql w
      | None \<Rightarrow>
          (case transaction (spread opts) of
             Some t \<Rightarrow> spec_execute gen (bound t) sql w
           | None \<Rightarrow>
               (case idle w of
                  [] \<Rightarrow> (Inl (BaseError (Some ''ConnectionError'')), w)
                | c # cs \<Rightarrow>
                    (let (r, w1) = spec_execute gen c sql (w\<lparr> idle := cs \<rparr>)
                     in (r, w1\<lparr> idle := idle w1 @ [c] \<rparr>)))))"

section \<open>Sample collaborators\<close>

text \<open>
  Collaborators for concrete runs. \<open>sample_env\<close> answers every query from a table of
  answers by SQL text, leases connection 7 and leaves the options alone; its generator
  writes MySQL-like statements. \<open>sample_backend_env\<close> runs on the backend above.
\<close>

definition sample_extract :: "table_name_or_model \<Rightarrow> table_ref" where
  "sample_extract tn =
     (case tn of
        TnString s \<Rightarrow> \<lparr> tableName = s, schema = None, delimiter = None \<rparr>
      | TnTable t \<Rightarrow> t
      | TnModel m \<Rightarrow> \<lparr> tableName = m, schema = None, delimiter = None \<rparr>)"

definition sample_describe :: "table_ref \<Rightarrow> string" where
  "sample_describe t =
     ''DESCRIBE '' @ (case schema t of None \<Rightarrow> [] | Some s \<Rightarrow> s @ ''.'') @ tableName t"

definition sample_toggle :: "bool \<Rightarrow> string" where
  "sample_toggle enable = (if enable then ''SET FOREIGN_KEY_CHECKS=1'' else ''SET FOREIGN_KEY_CHECKS=0'')"

definition sample_env :: "(string \<Rightarrow> error + jsval) \<Rightarrow> drop_schema_query \<Rightarrow> unit env" where
  "sample_env answer dropq =
     \<lparr> queryRaw = (\<lambda>sql opts w. (answer sql, w)),
       lease = (\<lambda>w. (Inr 7, w)),
       release = (\<lambda>c w. w),
       transactionFromCls = (\<lambda>o1 w. Inr o1),
       createSchemaQuery = (\<lambda>n opts. ''CREATE SCHEMA '' @ n),
       dropSchemaQuery = (\<lambda>n. dropq),
       listSchemasQuery = (\<lambda>opts. ''SHOW SCHEMAS''),
       extractTableDetails = sample_extract,
       describeTableQuery = sample_describe,
       getToggleForeignKeyChecksQuery = sample_toggle \<rparr>"

definition sample_backend_env :: "backend env" where
  "sample_backend_env =
     \<lparr> queryRaw = spec_queryRaw sample_toggle (\<lambda>t. t),
       lease = (\<lambda>w. case idle w of [] \<Rightarrow> (Inl (BaseError (Some ''ConnectionError'')), w)
                                   | c # cs \<Rightarrow> (Inr c, w\<lparr> idle := cs \<rparr>)),
       release = (\<lambda>c w. w\<lparr> idle := idle w @ [c] \<rparr>),
       transactionFromCls = (\<lambda>o1 w. Inr o1),
       createSchemaQuery = (\<lambda>n opts. ''CREATE SCHEMA '' @ n),
       dropSchemaQuery = (\<lambda>n. PlainSql (''DROP SCHEMA '' @ n)),
       listSchemasQuery = (\<lambda>opts. ''SHOW SCHEMAS''),
       extractTableDetails = sample_extract,
       describeTableQuery = sample_describe,
       getToggleForeignKeyChecksQuery = sample_toggle \<rparr>"

text \<open>
  Modelled from the spec: \<^verbatim>\<open>setTransactionFromCls\<close> of model-internals.js is not among the
  sources. Section 4.3: if no explicit transaction is present in the options, the implicitly
  active transaction (\<open>ambient\<close>) is looked up and injected; implicit propagation can be
  disabled at the system level.
\<close>

definition cls_inject :: "bool \<Rightarrow> transaction option \<Rightarrow> options \<Rightarrow> 'w \<Rightarrow> error + options" where
  "cls_inject disabled ambient o1 w =
     Inr (if disabled then o1
          else (case transaction o1 of
                  Some t \<Rightarrow> o1
                | None \<Rightarrow> (case ambient of None \<Rightarrow> o1 | Some t \<Rightarrow> o1\<lparr> transaction := Some t \<rparr>)))"

definition empty_state :: "'w \<Rightarrow> 'w state" where
  "empty_state w = \<lparr> heap = [], world = w, trace = [] \<rparr>"

text \<open>A run with an ambient transaction 3, from a store that holds two option objects of
  the caller: one with connection 5 (address 0) and an empty one (address 1).\<close>

definition sample_cls_env :: "unit env" where
  "sample_cls_env =
     (sample_env (\<lambda>sql. Inr JUndefined) (PlainSql ''DROP SCHEMA s''))
       \<lparr> transactionFromCls := cls_inject False (Some 3) \<rparr>"

definition sample_state :: "'w \<Rightarrow> 'w state" where
  "sample_state w =
     \<lparr> heap = [empty_options\<lparr> connection := Some 5 \<rparr>, empty_options], world = w, trace = [] \<rparr>"

definition sample_cb :: "conn option \<Rightarrow> 'w \<Rightarrow> (error + conn option) \<times> 'w" where
  "sample_cb c w = (Inr c, w)"

text \<open>A backend on which the enabling statement fails, and a callback that throws.\<close>

definition restore_fails :: "string \<Rightarrow> error + jsval" where
  "restore_fails sql =
     (if sql = sample_toggle True then Inl (BaseError (Some ''ER_LOCK_WAIT_TIMEOUT''))
      else Inr JUndefined)"

definition failing_cb :: "conn option \<Rightarrow> 'w \<Rightarrow> (error + unit) \<times> 'w" where
  "failing_cb c w = (Inl (Error ''callback failed''), w)"

text \<open>A table reference with a schema, a backend that describes one column, and an options
  object on the deprecated path of \<^verbatim>\<open>describeTable\<close>.\<close>

definition users_public :: table_ref where
  "users_public = \<lparr> tableName = ''users'', schema = Some ''public'', delimiter = None \<rparr>"

definition columns_env :: "unit env" where
  "columns_env =
     sample_env (\<lambda>sql. Inr (JObj [(''id'', JStr ''INTEGER'')])) (PlainSql ''DROP SCHEMA s'')"

text \<open>A pool with one idle handle and all checks on; a callback that throws; a helper
  that injects transaction 3 together with the connection 9 bound to it; and a helper that
  throws.\<close>

definition sample_pool :: backend where
  "sample_pool = \<lparr> fk_checks = (\<lambda>c. True), idle = [7] \<rparr>"

definition sample_throw :: "conn option \<Rightarrow> 'w \<Rightarrow> (error + unit) \<times> 'w" where
  "sample_throw c w = (Inl (Error ''callback failed''), w)"

text \<open>A callback that reports whether the checks of its connection are on while it runs.\<close>

definition sample_probe :: "conn option \<Rightarrow> backend \<Rightarrow> (error + bool) \<times> backend" where
  "sample_probe c w =
     (case c of
        None \<Rightarrow> (Inl (Error ''no connection''), w)
      | Some k \<Rightarrow> (Inr (fk_checks w k), w))"

text \<open>A backend on which the disabling statement fails.\<close>

definition disable_fails :: "string \<Rightarrow> error + jsval" where
  "disable_fails sql =
     (if sql = sample_toggle False then Inl (BaseError (Some ''ER_SPECIFIC_ACCESS_DENIED''))
      else Inr JUndefined)"

definition sample_binding_env :: "unit env" where
  "sample_binding_env =
     (sample_env (\<lambda>sql. Inr JUndefined) (PlainSql ''DROP SCHEMA s''))
       \<lparr> transactionFromCls := (\<lambda>o1 w. Inr (o1\<lparr> connection := Some 9, transaction := Some 3 \<rparr>)) \<rparr>"

definition sample_mismatch_env :: "unit env" where
  "sample_mismatch_env =
     (sample_env (\<lambda>sql. Inr JUndefined) (PlainSql ''DROP SCHEMA s''))
       \<lparr> transactionFromCls := (\<lambda>o1 w. Inl (Error ''mismatching transaction and connection'')) \<rparr>"

definition checks_off :: backend where
  "checks_off = \<lparr> fk_checks = (\<lambda>c. False), idle = [1, 2] \<rparr>"

definition sample_legacy :: options where
  "sample_legacy = empty_options\<lparr> opt_schema := Some ''archive'', schemaDelimiter := Some ''_'' \<rparr>"

section \<open>What each step does to the trace and the store\<close>

lemma call_queryRaw_trace:
  "trace (snd (call_queryRaw env sql opts st)) = trace st @ [QueryRaw sql opts]"
  by (simp add: call_queryRaw_def emit_def split: prod.splits)

lemma call_queryRaw_heap:
  "heap (snd (call_queryRaw env sql opts st)) = heap st"
  by (simp add: call_queryRaw_def emit_def split: prod.splits)

lemma toggle_trace:
  "trace (snd (unsafeToggleForeignKeyChecks env enable opts st)) =
     trace st @ [Toggle enable opts, QueryRaw (getToggleForeignKeyChecksQuery env enable) opts]"
  by (simp add: unsafeToggleForeignKeyChecks_def call_queryRaw_def emit_def split: prod.splits)

lemma toggle_heap:
  "heap (snd (unsafeToggleForeignKeyChecks env enable opts st)) = heap st"
  by (simp add: unsafeToggleForeignKeyChecks_def call_queryRaw_def emit_def split: prod.splits)

lemma run_callback_trace:
  "trace (snd (run_callback cb c st)) = trace st @ [Callback c]"
  by (simp add: run_callback_def emit_def split: prod.splits)

lemma run_callback_heap:
  "heap (snd (run_callback cb c st)) = heap st"
  by (simp add: run_callback_def emit_def split: prod.splits)

lemma fk_body_heap:
  "heap (snd (fk_body env a cb st)) = heap st"
proof (cases "unsafeToggleForeignKeyChecks env False (Some (deref st a)) st")
  case (Pair r st1)
  then have h: "heap st1 = heap st"
    using toggle_heap [of env False "Some (deref st a)" st] by simp
  show ?thesis
    using Pair h by (cases r) (simp_all add: fk_body_def run_callback_heap)
qed

lemma fk_body_trace:
  "trace (snd (fk_body env a cb st)) =
     trace st @ [Toggle False (Some (deref st a)),
                 QueryRaw (getToggleForeignKeyChecksQuery env False) (Some (deref st a))]
       @ (if isl (fst (unsafeToggleForeignKeyChecks env False (Some (deref st a)) st))
          then [] else [Callback (connection (deref st a))])"
proof (cases "unsafeToggleForeignKeyChecks env False (Some (deref st a)) st")
  case (Pair r st1)
  then have h: "heap st1 = heap st"
    and t: "trace st1 = trace st @ [Toggle False (Some (deref st a)),
                 QueryRaw (getToggleForeignKeyChecksQuery env False) (Some (deref st a))]"
    using toggle_heap [of env False "Some (deref st a)" st]
      toggle_trace [of env False "Some (deref st a)" st] by simp_all
  show ?thesis
    using Pair h t by (cases r) (simp_all add: fk_body_def run_callback_trace deref_def)
qed

lemma try_finally_snd:
  "snd (try_finally body fin st) = snd (fin (snd (body st)))"
  by (simp add: try_finally_def split: prod.splits sum.splits)

lemma try_finally_fst:
  "fst (try_finally body fin st) =
     (case fst (fin (snd (body st))) of Inl e \<Rightarrow> Inl e | Inr u \<Rightarrow> fst (body st))"
  by (simp add: try_finally_def split: prod.splits sum.splits)

lemma inner_heap:
  "heap (snd (withoutForeignKeyChecks_inner env a cb st)) = heap st"
  by (simp add: withoutForeignKeyChecks_inner_def try_finally_snd fk_restore_def toggle_heap fk_body_heap)

lemma inner_trace:
  "trace (snd (withoutForeignKeyChecks_inner env a cb st)) =
     trace st @ fk_scope_events env (deref st a)
       (\<not> isl (fst (unsafeToggleForeignKeyChecks env False (Some (deref st a)) st)))"
  by (simp add: withoutForeignKeyChecks_inner_def try_finally_snd fk_restore_def toggle_trace
      fk_body_trace fk_scope_events_def deref_def fk_body_heap)


lemma inner_fst:
  "fst (withoutForeignKeyChecks_inner env a cb st) =
     (case fst (fk_restore env a (snd (fk_body env a cb st))) of
        Inl e \<Rightarrow> Inl e
      | Inr u \<Rightarrow> fst (fk_body env a cb st))"
  by (simp add: withoutForeignKeyChecks_inner_def try_finally_fst)

lemma setTransactionFromCls_alloc:
  "setTransactionFromCls env (length (heap st)) (snd (alloc o0 st)) =
     (case transactionFromCls env o0 (world st) of
        Inl e \<Rightarrow> (Inl e, after_copy st o0)
      | Inr o1 \<Rightarrow> (Inr (), after_copy st o1))"
  by (simp add: setTransactionFromCls_def alloc_def emit_def deref_def after_copy_def
      split: sum.splits)

lemma wfk_inject_failed:
  assumes "transactionFromCls env (copied_options st arg) (world st) = Inl e"
  shows "withoutForeignKeyChecks env arg cb st = (Inl e, after_copy st (copied_options st arg))"
  using assms setTransactionFromCls_alloc [of env st "copied_options st arg"]
  by (simp add: withoutForeignKeyChecks_def alloc_def)

lemma wfk_direct:
  assumes "transactionFromCls env (copied_options st arg) (world st) = Inr o1"
    and "connection o1 = Some c"
  shows "withoutForeignKeyChecks env arg cb st =
           withoutForeignKeyChecks_inner env (length (heap st)) cb (after_copy st o1)"
  using assms setTransactionFromCls_alloc [of env st "copied_options st arg"]
  by (simp add: withoutForeignKeyChecks_def alloc_def after_copy_def deref_def)

lemma wfk_pooled:
  assumes "transactionFromCls env (copied_options st arg) (world st) = Inr o1"
    and "connection o1 = None"
  shows "withoutForeignKeyChecks env arg cb st =
           withConnection env (with_leased env (length (heap st)) cb) (after_copy st o1)"
  using assms setTransactionFromCls_alloc [of env st "copied_options st arg"]
  by (simp add: withoutForeignKeyChecks_def alloc_def after_copy_def deref_def)

lemma with_leased_inner:
  assumes "heap s = h @ [o1]"
  shows "with_leased env (length h) cb c s =
     withoutForeignKeyChecks_inner env (Suc (length h)) cb
       (s\<lparr> heap := h @ [o1, o1\<lparr> connection := Some c \<rparr>] \<rparr>)"
  using assms by (simp add: with_leased_def alloc_def deref_def)

lemma withConnection_failed:
  assumes "lease env (world st) = (Inl e, w)"
  shows "withConnection env f st = (Inl e, emit (LeaseFailed e) (st\<lparr> world := w \<rparr>))"
  using assms by (simp add: withConnection_def)

lemma withConnection_leased:
  assumes "lease env (world st) = (Inr c, w)"
  shows "snd (withConnection env f st) =
     emit (Release c) ((snd (f c (emit (Lease c) (st\<lparr> world := w \<rparr>))))
        \<lparr> world := release env c (world (snd (f c (emit (Lease c) (st\<lparr> world := w \<rparr>))))) \<rparr>)"
    and "fst (withConnection env f st) = fst (f c (emit (Lease c) (st\<lparr> world := w \<rparr>)))"
  using assms by (simp_all add: withConnection_def split: prod.splits)

lemma wfk_direct_trace:
  assumes "transactionFromCls env (copied_options st arg) (world st) = Inr o1"
    and "connection o1 = Some c"
  shows "\<exists>called. trace (snd (withoutForeignKeyChecks env arg cb st)) =
           trace st @ SetTransactionFromCls # fk_scope_events env o1 called"
proof -
  have "trace (snd (withoutForeignKeyChecks env arg cb st)) =
          trace (snd (withoutForeignKeyChecks_inner env (length (heap st)) cb (after_copy st o1)))"
    using wfk_direct [OF assms, where cb = cb] by simp
  then show ?thesis
    unfolding inner_trace by (auto simp: after_copy_def deref_def)
qed

lemma wfk_direct_heap:
  assumes "transactionFromCls env (copied_options st arg) (world st) = Inr o1"
    and "connection o1 = Some c"
  shows "heap (snd (withoutForeignKeyChecks env arg cb st)) = heap st @ [o1]"
  using wfk_direct [OF assms, where cb = cb]
  by (simp add: inner_heap after_copy_def)

lemma wfk_lease_failed:
  assumes "transactionFromCls env (copied_options st arg) (world st) = Inr o1"
    and "connection o1 = None"
    and "lease env (world st) = (Inl e, w)"
  shows "withoutForeignKeyChecks env arg cb st =
           (Inl e, st\<lparr> heap := heap st @ [o1], world := w,
                        trace := trace st @ [SetTransactionFromCls, LeaseFailed e] \<rparr>)"
  using wfk_pooled [OF assms(1,2), where cb = cb] assms(3)
  by (simp add: withConnection_def after_copy_def emit_def)

lemma wfk_leased_state:
  assumes "transactionFromCls env (copied_options st arg) (world st) = Inr o1"
    and "connection o1 = None"
    and "lease env (world st) = (Inr c, w)"
  shows "\<exists>s. heap s = heap st @ [o1, o1\<lparr> connection := Some c \<rparr>]
           \<and> trace s = trace st @ [SetTransactionFromCls, Lease c]
           \<and> heap (snd (withoutForeignKeyChecks env arg cb st)) =
               heap (snd (withoutForeignKeyChecks_inner env (Suc (length (heap st))) cb s))
           \<and> trace (snd (withoutForeignKeyChecks env arg cb st)) =
               trace (snd (withoutForeignKeyChecks_inner env (Suc (length (heap st))) cb s)) @ [Release c]"
proof -
  define s0 where "s0 = emit (Lease c) ((after_copy st o1)\<lparr> world := w \<rparr>)"
  define s where "s = s0\<lparr> heap := heap st @ [o1, o1\<lparr> connection := Some c \<rparr>] \<rparr>"
  have l: "lease env (world (after_copy st o1)) = (Inr c, w)"
    using assms(3) by (simp add: after_copy_def)
  have h: "heap s0 = heap st @ [o1]"
    by (simp add: s0_def emit_def after_copy_def)
  have w: "with_leased env (length (heap st)) cb c s0 =
             withoutForeignKeyChecks_inner env (Suc (length (heap st))) cb s"
    unfolding s_def by (rule with_leased_inner [OF h])
  have e: "snd (withoutForeignKeyChecks env arg cb st) =
      emit (Release c) ((snd (withoutForeignKeyChecks_inner env (Suc (length (heap st))) cb s))
        \<lparr> world := release env c
             (world (snd (withoutForeignKeyChecks_inner env (Suc (length (heap st))) cb s))) \<rparr>)"
    using wfk_pooled [OF assms(1,2), where cb = cb]
      withConnection_leased(1) [OF l, where f = "with_leased env (length (heap st)) cb"]
    unfolding s0_def [symmetric] w by simp
  have "heap s = heap st @ [o1, o1\<lparr> connection := Some c \<rparr>]"
    by (simp add: s_def)
  moreover have "trace s = trace st @ [SetTransactionFromCls, Lease c]"
    by (simp add: s_def s0_def emit_def after_copy_def)
  moreover have "heap (snd (withoutForeignKeyChecks env arg cb st)) =
               heap (snd (withoutForeignKeyChecks_inner env (Suc (length (heap st))) cb s))"
    unfolding e by (simp add: emit_def)
  moreover have "trace (snd (withoutForeignKeyChecks env arg cb st)) =
               trace (snd (withoutForeignKeyChecks_inner env (Suc (length (heap st))) cb s)) @ [Release c]"
    unfolding e by (simp add: emit_def)
  ultimately show ?thesis by blast
qed

lemma wfk_leased_trace:
  assumes "transactionFromCls env (copied_options st arg) (world st) = Inr o1"
    and "connection o1 = None"
    and "lease env (world st) = (Inr c, w)"
  shows "\<exists>called. trace (snd (withoutForeignKeyChecks env arg cb st)) =
           trace st @ [SetTransactionFromCls, Lease c]
             @ fk_scope_events env (o1\<lparr> connection := Some c \<rparr>) called @ [Release c]"
proof -
  obtain s where s: "heap s = heap st @ [o1, o1\<lparr> connection := Some c \<rparr>]"
      "trace s = trace st @ [SetTransactionFromCls, Lease c]"
      "trace (snd (withoutForeignKeyChecks env arg cb st)) =
         trace (snd (withoutForeignKeyChecks_inner env (Suc (length (heap st))) cb s)) @ [Release c]"
    using wfk_leased_state [OF assms, where cb = cb] by blast
  have d: "deref s (Suc (length (heap st))) = o1\<lparr> connection := Some c \<rparr>"
    by (simp add: deref_def s(1) nth_append)
  show ?thesis
    unfolding s(3) inner_trace d s(2) by auto
qed

lemma wfk_leased_heap:
  assumes "transactionFromCls env (copied_options st arg) (world st) = Inr o1"
    and "connection o1 = None"
    and "lease env (world st) = (Inr c, w)"
  shows "heap (snd (withoutForeignKeyChecks env arg cb st)) =
           heap st @ [o1, o1\<lparr> connection := Some c \<rparr>]"
  using wfk_leased_state [OF assms, where cb = cb] by (auto simp: inner_heap)

section \<open>The whole outcome of a run\<close>

lemma inner_called:
  assumes "queryRaw env (getToggleForeignKeyChecksQuery env False) (Some (deref st a)) (world st)
             = (Inr v, w1)"
    and "cb (connection (deref st a)) w1 = (r, w2)"
    and "queryRaw env (getToggleForeignKeyChecksQuery env True) (Some (deref st a)) w2 = (f, w3)"
  shows "withoutForeignKeyChecks_inner env a cb st =
           ((case f of Inl e2 \<Rightarrow> Inl e2 | Inr v2 \<Rightarrow> r),
            st\<lparr> world := w3,
                trace := trace st @
                  [Toggle False (Some (deref st a)),
                   QueryRaw (getToggleForeignKeyChecksQuery env False) (Some (deref st a)),
                   Callback (connection (deref st a)),
                   Toggle True (Some (deref st a)),
                   QueryRaw (getToggleForeignKeyChecksQuery env True) (Some (deref st a))] \<rparr>)"
  using assms
  by (simp add: withoutForeignKeyChecks_inner_def try_finally_def fk_body_def fk_restore_def
      unsafeToggleForeignKeyChecks_def call_queryRaw_def run_callback_def emit_def deref_def
      split: sum.splits)

lemma inner_skipped:
  assumes "queryRaw env (getToggleForeignKeyChecksQuery env False) (Some (deref st a)) (world st)
             = (Inl e, w1)"
    and "queryRaw env (getToggleForeignKeyChecksQuery env True) (Some (deref st a)) w1 = (f, w3)"
  shows "withoutForeignKeyChecks_inner env a cb st =
           ((case f of Inl e2 \<Rightarrow> Inl e2 | Inr v2 \<Rightarrow> Inl e),
            st\<lparr> world := w3,
                trace := trace st @
                  [Toggle False (Some (deref st a)),
                   QueryRaw (getToggleForeignKeyChecksQuery env False) (Some (deref st a)),
                   Toggle True (Some (deref st a)),
                   QueryRaw (getToggleForeignKeyChecksQuery env True) (Some (deref st a))] \<rparr>)"
  using assms
  by (simp add: withoutForeignKeyChecks_inner_def try_finally_def fk_body_def fk_restore_def
      unsafeToggleForeignKeyChecks_def call_queryRaw_def run_callback_def emit_def deref_def
      split: sum.splits)

lemma wfk_leased_inner:
  assumes "transactionFromCls env (copied_options st arg) (world st) = Inr o1"
    and "connection o1 = None"
    and "lease env (world st) = (Inr c, w0)"
    and "withoutForeignKeyChecks_inner env (Suc (length (heap st))) cb
           (st\<lparr> heap := heap st @ [o1, o1\<lparr> connection := Some c \<rparr>], world := w0,
                trace := trace st @ [SetTransactionFromCls, Lease c] \<rparr>) = (r, s)"
  shows "withoutForeignKeyChecks env arg cb st =
           (r, s\<lparr> world := release env c (world s), trace := trace s @ [Release c] \<rparr>)"
proof -
  let ?s0 = "emit (Lease c) ((after_copy st o1)\<lparr> world := w0 \<rparr>)"
  have l: "lease env (world (after_copy st o1)) = (Inr c, w0)"
    using assms(3) by (simp add: after_copy_def)
  have h: "heap ?s0 = heap st @ [o1]"
    by (simp add: emit_def after_copy_def)
  have e: "?s0\<lparr> heap := heap st @ [o1, o1\<lparr> connection := Some c \<rparr>] \<rparr> =
             st\<lparr> heap := heap st @ [o1, o1\<lparr> connection := Some c \<rparr>], world := w0,
                 trace := trace st @ [SetTransactionFromCls, Lease c] \<rparr>"
    by (simp add: emit_def after_copy_def)
  have w: "with_leased env (length (heap st)) cb c ?s0 = (r, s)"
    unfolding with_leased_inner [OF h] e by (rule assms(4))
  show ?thesis
    unfolding wfk_pooled [OF assms(1,2), where cb = cb]
    using l w by (simp add: withConnection_def emit_def)
qed



lemma wfk_direct_called:
  assumes inj: "transactionFromCls env (copied_options st arg) (world st) = Inr o1"
    and c: "connection o1 = Some c"
    and d: "queryRaw env (getToggleForeignKeyChecksQuery env False) (Some o1) (world st) = (Inr v, w1)"
    and b: "cb (Some c) w1 = (r, w2)"
    and n: "queryRaw env (getToggleForeignKeyChecksQuery env True) (Some o1) w2 = (f, w3)"
  shows "withoutForeignKeyChecks env arg cb st =
        ((case f of Inl e2 \<Rightarrow> Inl e2 | Inr v2 \<Rightarrow> r),
         st\<lparr> heap := heap st @ [o1], world := w3,
             trace := trace st @
               [SetTransactionFromCls,
                Toggle False (Some o1), QueryRaw (getToggleForeignKeyChecksQuery env False) (Some o1),
                Callback (Some c),
                Toggle True (Some o1), QueryRaw (getToggleForeignKeyChecksQuery env True) (Some o1)] \<rparr>)"
proof -
  let ?s = "after_copy st o1"
  have dr: "deref ?s (length (heap st)) = o1" and w: "world ?s = world st"
    by (simp_all add: after_copy_def deref_def)
  show ?thesis
    unfolding wfk_direct [OF inj c, where cb = cb]
    using inner_called [of env ?s "length (heap st)" v w1 cb r w2 f w3] c d b n
    unfolding dr w
    by (simp add: after_copy_def)
qed

lemma wfk_direct_skipped:
  assumes inj: "transactionFromCls env (copied_options st arg) (world st) = Inr o1"
    and c: "connection o1 = Some c"
    and d: "queryRaw env (getToggleForeignKeyChecksQuery env False) (Some o1) (world st) = (Inl e, w1)"
    and n: "queryRaw env (getToggleForeignKeyChecksQuery env True) (Some o1) w1 = (f, w3)"
  shows "withoutForeignKeyChecks env arg cb st =
        ((case f of Inl e2 \<Rightarrow> Inl e2 | Inr v2 \<Rightarrow> Inl e),
         st\<lparr> heap := heap st @ [o1], world := w3,
             trace := trace st @
               [SetTransactionFromCls,
                Toggle False (Some o1), QueryRaw (getToggleForeignKeyChecksQuery env False) (Some o1),
                Toggle True (Some o1), QueryRaw (getToggleForeignKeyChecksQuery env True) (Some o1)] \<rparr>)"
proof -
  let ?s = "after_copy st o1"
  have dr: "deref ?s (length (heap st)) = o1" and w: "world ?s = world st"
    by (simp_all add: after_copy_def deref_def)
  show ?thesis
    unfolding wfk_direct [OF inj c, where cb = cb]
    using inner_skipped [of env ?s "length (heap st)" e w1 f w3 cb] d n
    unfolding dr w
    by (simp add: after_copy_def)
qed

lemma wfk_leased_called:
  assumes inj: "transactionFromCls env (copied_options st arg) (world st) = Inr o1"
    and c: "connection o1 = None"
    and l: "lease env (world st) = (Inr c, w0)"
    and d: "queryRaw env (getToggleForeignKeyChecksQuery env False)
              (Some (o1\<lparr> connection := Some c \<rparr>)) w0 = (Inr v, w1)"
    and b: "cb (Some c) w1 = (r, w2)"
    and n: "queryRaw env (getToggleForeignKeyChecksQuery env True)
              (Some (o1\<lparr> connection := Some c \<rparr>)) w2 = (f, w3)"
  shows "withoutForeignKeyChecks env arg cb st =
        ((case f of Inl e2 \<Rightarrow> Inl e2 | Inr v2 \<Rightarrow> r),
         st\<lparr> heap := heap st @ [o1, o1\<lparr> connection := Some c \<rparr>], world := release env c w3,
             trace := trace st @
               [SetTransactionFromCls, Lease c,
                Toggle False (Some (o1\<lparr> connection := Some c \<rparr>)),
                QueryRaw (getToggleForeignKeyChecksQuery env False) (Some (o1\<lparr> connection := Some c \<rparr>)),
                Callback (Some c),
                Toggle True (Some (o1\<lparr> connection := Some c \<rparr>)),
                QueryRaw (getToggleForeignKeyChecksQuery env True) (Some (o1\<lparr> connection := Some c \<rparr>)),
                Release c] \<rparr>)"
proof -
  let ?oc = "o1\<lparr> connection := Some c \<rparr>"
  let ?s = "st\<lparr> heap := heap st @ [o1, ?oc], world := w0,
                trace := trace st @ [SetTransactionFromCls, Lease c] \<rparr>"
  have dr: "deref ?s (Suc (length (heap st))) = ?oc" and w: "world ?s = w0"
    by (simp_all add: deref_def nth_append)
  have co: "connection ?oc = Some c"
    by simp
  have i: "withoutForeignKeyChecks_inner env (Suc (length (heap st))) cb ?s =
      ((case f of Inl e2 \<Rightarrow> Inl e2 | Inr v2 \<Rightarrow> r),
       ?s\<lparr> world := w3,
           trace := trace ?s @
             [Toggle False (Some ?oc), QueryRaw (getToggleForeignKeyChecksQuery env False) (Some ?oc),
              Callback (Some c),
              Toggle True (Some ?oc), QueryRaw (getToggleForeignKeyChecksQuery env True) (Some ?oc)] \<rparr>)"
    using inner_called [of env ?s "Suc (length (heap st))" v w1 cb r w2 f w3] d b n
    unfolding dr w co by simp
  show ?thesis
    unfolding wfk_leased_inner [OF inj c l i] by simp
qed

lemma wfk_leased_skipped:
  assumes inj: "transactionFromCls env (copied_options st arg) (world st) = Inr o1"
    and c: "connection o1 = None"
    and l: "lease env (world st) = (Inr c, w0)"
    and d: "queryRaw env (getToggleForeignKeyChecksQuery env False)
              (Some (o1\<lparr> connection := Some c \<rparr>)) w0 = (Inl e, w1)"
    and n: "queryRaw env (getToggleForeignKeyChecksQuery env True)
              (Some (o1\<lparr> connection := Some c \<rparr>)) w1 = (f, w3)"
  shows "withoutForeignKeyChecks env arg cb st =
        ((case f of Inl e2 \<Rightarrow> Inl e2 | Inr v2 \<Rightarrow> Inl e),
         st\<lparr> heap := heap st @ [o1, o1\<lparr> connection := Some c \<rparr>], world := release env c w3,
             trace := trace st @
               [SetTransactionFromCls, Lease c,
                Toggle False (Some (o1\<lparr> connection := Some c \<rparr>)),
                QueryRaw (getToggleForeignKeyChecksQuery env False) (Some (o1\<lparr> connection := Some c \<rparr>)),
                Toggle True (Some (o1\<lparr> connection := Some c \<rparr>)),
                QueryRaw (getToggleForeignKeyChecksQuery env True) (Some (o1\<lparr> connection := Some c \<rparr>)),
                Release c] \<rparr>)"
proof -
  let ?oc = "o1\<lparr> connection := Some c \<rparr>"
  let ?s = "st\<lparr> heap := heap st @ [o1, ?oc], world := w0,
                trace := trace st @ [SetTransactionFromCls, Lease c] \<rparr>"
  have dr: "deref ?s (Suc (length (heap st))) = ?oc" and w: "world ?s = w0"
    by (simp_all add: deref_def nth_append)
  have i: "withoutForeignKeyChecks_inner env (Suc (length (heap st))) cb ?s =
      ((case f of Inl e2 \<Rightarrow> Inl e2 | Inr v2 \<Rightarrow> Inl e),
       ?s\<lparr> world := w3,
           trace := trace ?s @
             [Toggle False (Some ?oc), QueryRaw (getToggleForeignKeyChecksQuery env False) (Some ?oc),
              Toggle True (Some ?oc), QueryRaw (getToggleForeignKeyChecksQuery env True) (Some ?oc)] \<rparr>)"
    using inner_skipped [of env ?s "Suc (length (heap st))" e w1 f w3 cb] d n
    unfolding dr w by simp
  show ?thesis
    unfolding wfk_leased_inner [OF inj c l i] by simp
qed

section \<open>Concrete runs\<close>

lemmas run_defs =
  withoutForeignKeyChecks_def sample_env_def empty_state_def alloc_def
  copied_options_def setTransactionFromCls_def emit_def deref_def empty_options_def
  withConnection_def with_leased_def withoutForeignKeyChecks_inner_def try_finally_def
  fk_body_def fk_restore_def unsafeToggleForeignKeyChecks_def call_queryRaw_def run_callback_def
  sample_toggle_def sample_backend_env_def cls_inject_def sample_cls_env_def sample_state_def
  sample_cb_def

lemmas backend_defs =
  sample_backend_env_def spec_queryRaw_def spec_execute_def spread_def sample_toggle_def
  sample_state_def sample_pool_def empty_options_def copied_options_def deref_def

section \<open>Ambient transaction injection\<close>

text \<open>
  C8. In every call of \<^verbatim>\<open>withoutForeignKeyChecks\<close>, \<^verbatim>\<open>setTransactionFromCls\<close> runs once, on the
  method's copy of the options and in the state the call started in, before anything else.
  If it throws, the call fails with its error and nothing else is done. Otherwise the
  options \<open>o1\<close> it leaves behind are the ones that decide the connection: with a connection
  in \<open>o1\<close> the call continues as \<^verbatim>\<open>#withoutForeignKeyChecks\<close> on \<open>o1\<close>, without one as
  \<^verbatim>\<open>withConnection\<close> around it. Accordingly \<open>SetTransactionFromCls\<close> is the first call of
  the method and does not occur again among its calls.
\<close>

theorem injection_once_before_resolution:
  "(transactionFromCls env (copied_options st arg) (world st) = Inl e \<longrightarrow>
      withoutForeignKeyChecks env arg cb st =
        (Inl e, st\<lparr> heap := heap st @ [copied_options st arg],
                     trace := trace st @ [SetTransactionFromCls] \<rparr>))
   \<and> (transactionFromCls env (copied_options st arg) (world st) = Inr o1
        \<and> connection o1 = Some c \<longrightarrow>
      withoutForeignKeyChecks env arg cb st =
        withoutForeignKeyChecks_inner env (length (heap st)) cb
          (st\<lparr> heap := heap st @ [o1], trace := trace st @ [SetTransactionFromCls] \<rparr>))
   \<and> (transactionFromCls env (copied_options st arg) (world st) = Inr o1
        \<and> connection o1 = None \<longrightarrow>
      withoutForeignKeyChecks env arg cb st =
        withConnection env (with_leased env (length (heap st)) cb)
          (st\<lparr> heap := heap st @ [o1], trace := trace st @ [SetTransactionFromCls] \<rparr>))
   \<and> (\<exists>rest. trace (snd (withoutForeignKeyChecks env arg cb st)) =
                trace st @ SetTransactionFromCls # rest
              \<and> SetTransactionFromCls \<notin> set rest)"
proof (intro conjI impI; (elim conjE)?)
  assume "transactionFromCls env (copied_options st arg) (world st) = Inl e"
  then show "withoutForeignKeyChecks env arg cb st =
        (Inl e, st\<lparr> heap := heap st @ [copied_options st arg],
                     trace := trace st @ [SetTransactionFromCls] \<rparr>)"
    by (simp add: wfk_inject_failed after_copy_def)
next
  assume "transactionFromCls env (copied_options st arg) (world st) = Inr o1"
    and "connection o1 = Some c"
  then show "withoutForeignKeyChecks env arg cb st =
        withoutForeignKeyChecks_inner env (length (heap st)) cb
          (st\<lparr> heap := heap st @ [o1], trace := trace st @ [SetTransactionFromCls] \<rparr>)"
    using wfk_direct [where cb = cb] by (simp add: after_copy_def)
next
  assume "transactionFromCls env (copied_options st arg) (world st) = Inr o1"
    and "connection o1 = None"
  then show "withoutForeignKeyChecks env arg cb st =
        withConnection env (with_leased env (length (heap st)) cb)
          (st\<lparr> heap := heap st @ [o1], trace := trace st @ [SetTransactionFromCls] \<rparr>)"
    using wfk_pooled [where cb = cb] by (simp add: after_copy_def)
next
  show "\<exists>rest. trace (snd (withoutForeignKeyChecks env arg cb st)) =
                trace st @ SetTransactionFromCls # rest
              \<and> SetTransactionFromCls \<notin> set rest"
  proof (cases "transactionFromCls env (copied_options st arg) (world st)")
    case (Inl e)
    show ?thesis
      unfolding wfk_inject_failed [OF Inl] by (simp add: after_copy_def)
  next
    case (Inr o1)
    show ?thesis
    proof (cases "connection o1")
      case (Some c)
      obtain called where "trace (snd (withoutForeignKeyChecks env arg cb st)) =
          trace st @ SetTransactionFromCls # fk_scope_events env o1 called"
        using wfk_direct_trace [OF Inr Some, where cb = cb] by blast
      then show ?thesis
        by (simp add: fk_scope_events_def)
    next
      case None
      show ?thesis
      proof (cases "lease env (world st)")
        case (Pair r w)
        show ?thesis
        proof (cases r)
          case (Inl e)
          with Pair have l: "lease env (world st) = (Inl e, w)" by simp
          show ?thesis
            unfolding wfk_lease_failed [OF Inr None l] by simp
        next
          case r: (Inr c)
          with Pair have l: "lease env (world st) = (Inr c, w)" by simp
          obtain called where "trace (snd (withoutForeignKeyChecks env arg cb st)) =
             trace st @ [SetTransactionFromCls, Lease c]
               @ fk_scope_events env (o1\<lparr> connection := Some c \<rparr>) called @ [Release c]"
            using wfk_leased_trace [OF Inr None l, where cb = cb] by blast
          then show ?thesis
            by (simp add: fk_scope_events_def)
        qed
      qed
    qed
  qed
qed

theorem injection_once_before_resolution_witness:
  "withoutForeignKeyChecks sample_mismatch_env (Some 1) sample_cb (sample_state ()) =
     (Inl (Error ''mismatching transaction and connection''),
      (sample_state ())\<lparr> heap := heap (sample_state ()) @ [empty_options],
                          trace := [SetTransactionFromCls] \<rparr>)
   \<and> withoutForeignKeyChecks sample_binding_env (Some 1) sample_cb (sample_state ()) =
       (Inr (Some 9),
        (sample_state ())
          \<lparr> heap := heap (sample_state ()) @ [empty_options\<lparr> connection := Some 9, transaction := Some 3 \<rparr>],
            trace :=
              [SetTransactionFromCls,
               Toggle False (Some (empty_options\<lparr> connection := Some 9, transaction := Some 3 \<rparr>)),
               QueryRaw ''SET FOREIGN_KEY_CHECKS=0''
                 (Some (empty_options\<lparr> connection := Some 9, transaction := Some 3 \<rparr>)),
               Callback (Some 9),
               Toggle True (Some (empty_options\<lparr> connection := Some 9, transaction := Some 3 \<rparr>)),
               QueryRaw ''SET FOREIGN_KEY_CHECKS=1''
                 (Some (empty_options\<lparr> connection := Some 9, transaction := Some 3 \<rparr>))] \<rparr>)
   \<and> trace (snd (withoutForeignKeyChecks sample_cls_env (Some 1) sample_cb (sample_state ()))) =
       [SetTransactionFromCls, Lease 7,
        Toggle False (Some (empty_options\<lparr> connection := Some 7, transaction := Some 3 \<rparr>)),
        QueryRaw ''SET FOREIGN_KEY_CHECKS=0''
          (Some (empty_options\<lparr> connection := Some 7, transaction := Some 3 \<rparr>)),
        Callback (Some 7),
        Toggle True (Some (empty_options\<lparr> connection := Some 7, transaction := Some 3 \<rparr>)),
        QueryRaw ''SET FOREIGN_KEY_CHECKS=1''
          (Some (empty_options\<lparr> connection := Some 7, transaction := Some 3 \<rparr>)),
        Release 7]"
proof -
  let ?st = "sample_state ()"
  let ?o93 = "empty_options\<lparr> connection := Some 9, transaction := Some 3 \<rparr>"
  let ?o3 = "empty_options\<lparr> transaction := Some 3 \<rparr>"
  have a: "transactionFromCls sample_mismatch_env (copied_options ?st (Some 1)) (world ?st) =
             Inl (Error ''mismatching transaction and connection'')"
    by (simp add: run_defs sample_mismatch_env_def)
  have b: "transactionFromCls sample_binding_env (copied_options ?st (Some 1)) (world ?st) = Inr ?o93
      \<and> connection ?o93 = Some 9"
    by (simp add: run_defs sample_binding_env_def)
  have c: "transactionFromCls sample_cls_env (copied_options ?st (Some 1)) (world ?st) = Inr ?o3
      \<and> connection ?o3 = None"
    by (simp add: run_defs)
  note ta = injection_once_before_resolution [where cb = sample_cb, THEN conjunct1, THEN mp, OF a]
  note tb = injection_once_before_resolution [where cb = sample_cb,
      THEN conjunct2, THEN conjunct1, THEN mp, OF b]
  note tc = injection_once_before_resolution [where cb = sample_cb,
      THEN conjunct2, THEN conjunct2, THEN conjunct1, THEN mp, OF c]
  show ?thesis
    unfolding ta tb tc
    by (simp add: run_defs sample_binding_env_def)
qed

section \<open>Re-enabling after the callback\<close>

text \<open>
  C1. Whenever \<^verbatim>\<open>withoutForeignKeyChecks\<close> reaches the callback (the injection and the
  disabling statement succeeded, on the connection of the options or on a leased one), and
  whatever outcome \<open>r\<close> the callback settles with, the enabling statement is run once, on
  the state \<open>w2\<close> the callback left: the backend after the call is what that one run made
  of \<open>w2\<close> (after the release, on the leased path), the caller gets the error of that run
  if it failed and \<open>r\<close> otherwise, and the calls of the method show the callback followed
  by exactly one \<^verbatim>\<open>unsafeToggleForeignKeyChecks(true, ...)\<close>.
\<close>

theorem reenable_once_after_callback:
  assumes inj: "transactionFromCls env (copied_options st arg) (world st) = Inr o1"
    and off: "off_sql = getToggleForeignKeyChecksQuery env False"
    and on: "on_sql = getToggleForeignKeyChecksQuery env True"
    and oc: "oc = o1\<lparr> connection := Some c \<rparr>"
  shows
    "(connection o1 = Some c
        \<and> queryRaw env off_sql (Some o1) (world st) = (Inr v, w1)
        \<and> cb (Some c) w1 = (r, w2)
        \<and> queryRaw env on_sql (Some o1) w2 = (f, w3) \<longrightarrow>
      fst (withoutForeignKeyChecks env arg cb st) = (case f of Inl e2 \<Rightarrow> Inl e2 | Inr v2 \<Rightarrow> r)
      \<and> world (snd (withoutForeignKeyChecks env arg cb st)) = w3
      \<and> trace (snd (withoutForeignKeyChecks env arg cb st)) =
          trace st @
            [SetTransactionFromCls,
             Toggle False (Some o1), QueryRaw off_sql (Some o1),
             Callback (Some c),
             Toggle True (Some o1), QueryRaw on_sql (Some o1)])
   \<and> (connection o1 = None \<and> lease env (world st) = (Inr c, w0)
        \<and> queryRaw env off_sql (Some oc) w0 = (Inr v, w1)
        \<and> cb (Some c) w1 = (r, w2)
        \<and> queryRaw env on_sql (Some oc) w2 = (f, w3) \<longrightarrow>
      fst (withoutForeignKeyChecks env arg cb st) = (case f of Inl e2 \<Rightarrow> Inl e2 | Inr v2 \<Rightarrow> r)
      \<and> world (snd (withoutForeignKeyChecks env arg cb st)) = release env c w3
      \<and> trace (snd (withoutForeignKeyChecks env arg cb st)) =
          trace st @
            [SetTransactionFromCls, Lease c,
             Toggle False (Some oc), QueryRaw off_sql (Some oc),
             Callback (Some c),
             Toggle True (Some oc), QueryRaw on_sql (Some oc),
             Release c])"
proof (intro conjI impI; elim conjE)
  assume h: "connection o1 = Some c" "queryRaw env off_sql (Some o1) (world st) = (Inr v, w1)"
    "cb (Some c) w1 = (r, w2)" "queryRaw env on_sql (Some o1) w2 = (f, w3)"
  note e = wfk_direct_called [where cb = cb, OF inj h(1) h(2) [unfolded off] h(3) h(4) [unfolded on]]
  show "fst (withoutForeignKeyChecks env arg cb st) = (case f of Inl e2 \<Rightarrow> Inl e2 | Inr v2 \<Rightarrow> r)"
    and "world (snd (withoutForeignKeyChecks env arg cb st)) = w3"
    and "trace (snd (withoutForeignKeyChecks env arg cb st)) =
          trace st @
            [SetTransactionFromCls,
             Toggle False (Some o1), QueryRaw off_sql (Some o1),
             Callback (Some c),
             Toggle True (Some o1), QueryRaw on_sql (Some o1)]"
    unfolding e off on by simp_all
next
  assume h: "connection o1 = None" "lease env (world st) = (Inr c, w0)"
    "queryRaw env off_sql (Some oc) w0 = (Inr v, w1)"
    "cb (Some c) w1 = (r, w2)" "queryRaw env on_sql (Some oc) w2 = (f, w3)"
  note e = wfk_leased_called [where cb = cb, OF inj h(1) h(2) h(3) [unfolded off oc] h(4) h(5) [unfolded on oc]]
  show "fst (withoutForeignKeyChecks env arg cb st) = (case f of Inl e2 \<Rightarrow> Inl e2 | Inr v2 \<Rightarrow> r)"
    and "world (snd (withoutForeignKeyChecks env arg cb st)) = release env c w3"
    and "trace (snd (withoutForeignKeyChecks env arg cb st)) =
          trace st @
            [SetTransactionFromCls, Lease c,
             Toggle False (Some oc), QueryRaw off_sql (Some oc),
             Callback (Some c),
             Toggle True (Some oc), QueryRaw on_sql (Some oc),
             Release c]"
    unfolding e off on oc by simp_all
qed

theorem reenable_once_after_callback_witness:
  "fst (withoutForeignKeyChecks sample_backend_env (Some 0) sample_probe (sample_state sample_pool))
     = Inr False
   \<and> fk_checks (world (snd (withoutForeignKeyChecks sample_backend_env (Some 0) sample_probe
                               (sample_state sample_pool)))) 5
   \<and> fst (withoutForeignKeyChecks sample_backend_env (Some 1) sample_throw (sample_state sample_pool))
     = Inl (Error ''callback failed'')
   \<and> fk_checks (world (snd (withoutForeignKeyChecks sample_backend_env (Some 1) sample_throw
                               (sample_state sample_pool)))) 7
   \<and> idle (world (snd (withoutForeignKeyChecks sample_backend_env (Some 1) sample_throw
                          (sample_state sample_pool)))) = [7]"
proof -
  let ?env = "sample_backend_env"
  let ?st = "sample_state sample_pool"
  let ?ok = "Inr (JArr [JArr [], JNum 0]) :: error + jsval"
  let ?o5 = "empty_options\<lparr> connection := Some 5 \<rparr>"
  let ?o7 = "empty_options\<lparr> connection := Some 7 \<rparr>"
  let ?off5 = "sample_pool\<lparr> fk_checks := (fk_checks sample_pool)(5 := False) \<rparr>"
  let ?on5 = "?off5\<lparr> fk_checks := (fk_checks ?off5)(5 := True) \<rparr>"
  let ?w0 = "sample_pool\<lparr> idle := [] \<rparr>"
  let ?off7 = "?w0\<lparr> fk_checks := (fk_checks ?w0)(7 := False) \<rparr>"
  let ?on7 = "?off7\<lparr> fk_checks := (fk_checks ?off7)(7 := True) \<rparr>"
  have i0: "transactionFromCls ?env (copied_options ?st (Some 0)) (world ?st) = Inr ?o5"
    and i1: "transactionFromCls ?env (copied_options ?st (Some 1)) (world ?st) = Inr empty_options"
    by (simp_all add: backend_defs)
  have a: "connection ?o5 = Some 5
      \<and> queryRaw ?env (getToggleForeignKeyChecksQuery ?env False) (Some ?o5) (world ?st) = (?ok, ?off5)
      \<and> sample_probe (Some 5) ?off5 = (Inr False, ?off5)
      \<and> queryRaw ?env (getToggleForeignKeyChecksQuery ?env True) (Some ?o5) ?off5 = (?ok, ?on5)"
    by (simp add: backend_defs sample_probe_def)
  have b: "connection empty_options = None \<and> lease ?env (world ?st) = (Inr 7, ?w0)
      \<and> queryRaw ?env (getToggleForeignKeyChecksQuery ?env False) (Some ?o7) ?w0 = (?ok, ?off7)
      \<and> sample_throw (Some 7) ?off7 = (Inl (Error ''callback failed''), ?off7)
      \<and> queryRaw ?env (getToggleForeignKeyChecksQuery ?env True) (Some ?o7) ?off7 = (?ok, ?on7)"
    by (simp add: backend_defs sample_throw_def)
  have r: "release ?env 7 ?on7 = ?on7\<lparr> idle := [7] \<rparr>"
    by (simp add: backend_defs)
  note t0 = reenable_once_after_callback [OF i0 refl refl refl, where cb = sample_probe,
      THEN conjunct1, THEN mp, OF a]
  note t1 = reenable_once_after_callback [OF i1 refl refl refl, where cb = sample_throw,
      THEN conjunct2, THEN mp, OF b]
  show ?thesis
    using t0 t1 unfolding r by simp
qed

section \<open>The connection of the scope\<close>

text \<open>
  C3. Let \<open>o1\<close> be the options of \<^verbatim>\<open>withoutForeignKeyChecks\<close> once \<^verbatim>\<open>setTransactionFromCls\<close>
  has run on them. If \<open>o1\<close> has a connection \<open>c\<close>: the disabling statement runs with
  \<open>o1\<close>; if it succeeds the callback is called with \<open>c\<close>, if it fails the callback is
  not called; the enabling statement runs with \<open>o1\<close> on what they left; nothing is leased
  or released. If \<open>o1\<close> has no connection and the provider leases \<open>c\<close>: the same three
  steps run with \<^verbatim>\<open>{ ...options, connection }\<close> and \<open>c\<close> on the state the lease left, and
  \<open>c\<close> is released once, last, whatever the statements and the callback returned or
  threw. If the lease itself fails, the call fails with that error and there is nothing to
  release. In each case the whole outcome of the call is given: its result, the store, the
  backend and the calls made.
\<close>

theorem connection_scope:
  assumes inj: "transactionFromCls env (copied_options st arg) (world st) = Inr o1"
    and off: "off_sql = getToggleForeignKeyChecksQuery env False"
    and on: "on_sql = getToggleForeignKeyChecksQuery env True"
    and oc: "oc = o1\<lparr> connection := Some c \<rparr>"
  shows
    "(connection o1 = Some c
        \<and> queryRaw env off_sql (Some o1) (world st) = (Inr v, w1)
        \<and> cb (Some c) w1 = (r, w2)
        \<and> queryRaw env on_sql (Some o1) w2 = (f, w3) \<longrightarrow>
      withoutForeignKeyChecks env arg cb st =
        ((case f of Inl e2 \<Rightarrow> Inl e2 | Inr v2 \<Rightarrow> r),
         st\<lparr> heap := heap st @ [o1], world := w3,
             trace := trace st @
               [SetTransactionFromCls,
                Toggle False (Some o1), QueryRaw off_sql (Some o1),
                Callback (Some c),
                Toggle True (Some o1), QueryRaw on_sql (Some o1)] \<rparr>))
   \<and> (connection o1 = Some c
        \<and> queryRaw env off_sql (Some o1) (world st) = (Inl e, w1)
        \<and> queryRaw env on_sql (Some o1) w1 = (f, w3) \<longrightarrow>
      withoutForeignKeyChecks env arg cb st =
        ((case f of Inl e2 \<Rightarrow> Inl e2 | Inr v2 \<Rightarrow> Inl e),
         st\<lparr> heap := heap st @ [o1], world := w3,
             trace := trace st @
               [SetTransactionFromCls,
                Toggle False (Some o1), QueryRaw off_sql (Some o1),
                Toggle True (Some o1), QueryRaw on_sql (Some o1)] \<rparr>))
   \<and> (connection o1 = None \<and> lease env (world st) = (Inr c, w0)
        \<and> queryRaw env off_sql (Some oc) w0 = (Inr v, w1)
        \<and> cb (Some c) w1 = (r, w2)
        \<and> queryRaw env on_sql (Some oc) w2 = (f, w3) \<longrightarrow>
      withoutForeignKeyChecks env arg cb st =
        ((case f of Inl e2 \<Rightarrow> Inl e2 | Inr v2 \<Rightarrow> r),
         st\<lparr> heap := heap st @ [o1, oc], world := release env c w3,
             trace := trace st @
               [SetTransactionFromCls, Lease c,
                Toggle False (Some oc), QueryRaw off_sql (Some oc),
                Callback (Some c),
                Toggle True (Some oc), QueryRaw on_sql (Some oc),
                Release c] \<rparr>))
   \<and> (connection o1 = None \<and> lease env (world st) = (Inr c, w0)
        \<and> queryRaw env off_sql (Some oc) w0 = (Inl e, w1)
        \<and> queryRaw env on_sql (Some oc) w1 = (f, w3) \<longrightarrow>
      withoutForeignKeyChecks env arg cb st =
        ((case f of Inl e2 \<Rightarrow> Inl e2 | Inr v2 \<Rightarrow> Inl e),
         st\<lparr> heap := heap st @ [o1, oc], world := release env c w3,
             trace := trace st @
               [SetTransactionFromCls, Lease c,
                Toggle False (Some oc), QueryRaw off_sql (Some oc),
                Toggle True (Some oc), QueryRaw on_sql (Some oc),
                Release c] \<rparr>))
   \<and> (connection o1 = None \<and> lease env (world st) = (Inl e, w0) \<longrightarrow>
      withoutForeignKeyChecks env arg cb st =
        (Inl e, st\<lparr> heap := heap st @ [o1], world := w0,
                     trace := trace st @ [SetTransactionFromCls, LeaseFailed e] \<rparr>))"
  unfolding off on oc
proof (intro conjI impI; elim conjE)
  assume "connection o1 = Some c"
    and "queryRaw env (getToggleForeignKeyChecksQuery env False) (Some o1) (world st) = (Inr v, w1)"
    and "cb (Some c) w1 = (r, w2)"
    and "queryRaw env (getToggleForeignKeyChecksQuery env True) (Some o1) w2 = (f, w3)"
  then show "withoutForeignKeyChecks env arg cb st =
        ((case f of Inl e2 \<Rightarrow> Inl e2 | Inr v2 \<Rightarrow> r),
         st\<lparr> heap := heap st @ [o1], world := w3,
             trace := trace st @
               [SetTransactionFromCls,
                Toggle False (Some o1), QueryRaw (getToggleForeignKeyChecksQuery env False) (Some o1),
                Callback (Some c),
                Toggle True (Some o1), QueryRaw (getToggleForeignKeyChecksQuery env True) (Some o1)] \<rparr>)"
    by (rule wfk_direct_called [where cb = cb, OF inj])
next
  assume "connection o1 = Some c"
    and "queryRaw env (getToggleForeignKeyChecksQuery env False) (Some o1) (world st) = (Inl e, w1)"
    and "queryRaw env (getToggleForeignKeyChecksQuery env True) (Some o1) w1 = (f, w3)"
  then show "withoutForeignKeyChecks env arg cb st =
        ((case f of Inl e2 \<Rightarrow> Inl e2 | Inr v2 \<Rightarrow> Inl e),
         st\<lparr> heap := heap st @ [o1], world := w3,
             trace := trace st @
               [SetTransactionFromCls,
                Toggle False (Some o1), QueryRaw (getToggleForeignKeyChecksQuery env False) (Some o1),
                Toggle True (Some o1), QueryRaw (getToggleForeignKeyChecksQuery env True) (Some o1)] \<rparr>)"
    by (rule wfk_direct_skipped [where cb = cb, OF inj])
next
  assume "connection o1 = None" and "lease env (world st) = (Inr c, w0)"
    and "queryRaw env (getToggleForeignKeyChecksQuery env False)
           (Some (o1\<lparr> connection := Some c \<rparr>)) w0 = (Inr v, w1)"
    and "cb (Some c) w1 = (r, w2)"
    and "queryRaw env (getToggleForeignKeyChecksQuery env True)
           (Some (o1\<lparr> connection := Some c \<rparr>)) w2 = (f, w3)"
  then show "withoutForeignKeyChecks env arg cb st =
        ((case f of Inl e2 \<Rightarrow> Inl e2 | Inr v2 \<Rightarrow> r),
         st\<lparr> heap := heap st @ [o1, o1\<lparr> connection := Some c \<rparr>], world := release env c w3,
             trace := trace st @
               [SetTransactionFromCls, Lease c,
                Toggle False (Some (o1\<lparr> connection := Some c \<rparr>)),
                QueryRaw (getToggleForeignKeyChecksQuery env False) (Some (o1\<lparr> connection := Some c \<rparr>)),
                Callback (Some c),
                Toggle True (Some (o1\<lparr> connection := Some c \<rparr>)),
                QueryRaw (getToggleForeignKeyChecksQuery env True) (Some (o1\<lparr> connection := Some c \<rparr>)),
                Release c] \<rparr>)"
    by (rule wfk_leased_called [where cb = cb, OF inj])
next
  assume "connection o1 = None" and "lease env (world st) = (Inr c, w0)"
    and "queryRaw env (getToggleForeignKeyChecksQuery env False)
           (Some (o1\<lparr> connection := Some c \<rparr>)) w0 = (Inl e, w1)"
    and "queryRaw env (getToggleForeignKeyChecksQuery env True)
           (Some (o1\<lparr> connection := Some c \<rparr>)) w1 = (f, w3)"
  then show "withoutForeignKeyChecks env arg cb st =
        ((case f of Inl e2 \<Rightarrow> Inl e2 | Inr v2 \<Rightarrow> Inl e),
         st\<lparr> heap := heap st @ [o1, o1\<lparr> connection := Some c \<rparr>], world := release env c w3,
             trace := trace st @
               [SetTransactionFromCls, Lease c,
                Toggle False (Some (o1\<lparr> connection := Some c \<rparr>)),
                QueryRaw (getToggleForeignKeyChecksQuery env False) (Some (o1\<lparr> connection := Some c \<rparr>)),
                Toggle True (Some (o1\<lparr> connection := Some c \<rparr>)),
                QueryRaw (getToggleForeignKeyChecksQuery env True) (Some (o1\<lparr> connection := Some c \<rparr>)),
                Release c] \<rparr>)"
    by (rule wfk_leased_skipped [where cb = cb, OF inj])
next
  assume "connection o1 = None" and "lease env (world st) = (Inl e, w0)"
  then show "withoutForeignKeyChecks env arg cb st =
        (Inl e, st\<lparr> heap := heap st @ [o1], world := w0,
                     trace := trace st @ [SetTransactionFromCls, LeaseFailed e] \<rparr>)"
    by (rule wfk_lease_failed [OF inj])
qed

theorem connection_scope_witness:
  "withoutForeignKeyChecks sample_cls_env (Some 0) sample_cb (sample_state ()) =
     (Inr (Some 5),
      (sample_state ())
        \<lparr> heap := heap (sample_state ()) @ [empty_options\<lparr> connection := Some 5, transaction := Some 3 \<rparr>],
          world := (),
          trace :=
            [SetTransactionFromCls,
             Toggle False (Some (empty_options\<lparr> connection := Some 5, transaction := Some 3 \<rparr>)),
             QueryRaw ''SET FOREIGN_KEY_CHECKS=0''
               (Some (empty_options\<lparr> connection := Some 5, transaction := Some 3 \<rparr>)),
             Callback (Some 5),
             Toggle True (Some (empty_options\<lparr> connection := Some 5, transaction := Some 3 \<rparr>)),
             QueryRaw ''SET FOREIGN_KEY_CHECKS=1''
               (Some (empty_options\<lparr> connection := Some 5, transaction := Some 3 \<rparr>))] \<rparr>)
   \<and> withoutForeignKeyChecks (sample_env disable_fails (PlainSql ''DROP SCHEMA s'')) (Some 0) sample_cb
        (sample_state ()) =
     (Inl (BaseError (Some ''ER_SPECIFIC_ACCESS_DENIED'')),
      (sample_state ())
        \<lparr> heap := heap (sample_state ()) @ [empty_options\<lparr> connection := Some 5 \<rparr>],
          world := (),
          trace :=
            [SetTransactionFromCls,
             Toggle False (Some (empty_options\<lparr> connection := Some 5 \<rparr>)),
             QueryRaw ''SET FOREIGN_KEY_CHECKS=0'' (Some (empty_options\<lparr> connection := Some 5 \<rparr>)),
             Toggle True (Some (empty_options\<lparr> connection := Some 5 \<rparr>)),
             QueryRaw ''SET FOREIGN_KEY_CHECKS=1'' (Some (empty_options\<lparr> connection := Some 5 \<rparr>))] \<rparr>)
   \<and> withoutForeignKeyChecks sample_cls_env (Some 1) sample_cb (sample_state ()) =
     (Inr (Some 7),
      (sample_state ())
        \<lparr> heap := heap (sample_state ()) @
            [empty_options\<lparr> transaction := Some 3 \<rparr>,
             empty_options\<lparr> connection := Some 7, transaction := Some 3 \<rparr>],
          world := (),
          trace :=
            [SetTransactionFromCls, Lease 7,
             Toggle False (Some (empty_options\<lparr> connection := Some 7, transaction := Some 3 \<rparr>)),
             QueryRaw ''SET FOREIGN_KEY_CHECKS=0''
               (Some (empty_options\<lparr> connection := Some 7, transaction := Some 3 \<rparr>)),
             Callback (Some 7),
             Toggle True (Some (empty_options\<lparr> connection := Some 7, transaction := Some 3 \<rparr>)),
             QueryRaw ''SET FOREIGN_KEY_CHECKS=1''
               (Some (empty_options\<lparr> connection := Some 7, transaction := Some 3 \<rparr>)),
             Release 7] \<rparr>)
   \<and> withoutForeignKeyChecks (sample_env disable_fails (PlainSql ''DROP SCHEMA s'')) (Some 1) sample_cb
        (sample_state ()) =
     (Inl (BaseError (Some ''ER_SPECIFIC_ACCESS_DENIED'')),
      (sample_state ())
        \<lparr> heap := heap (sample_state ()) @ [empty_options, empty_options\<lparr> connection := Some 7 \<rparr>],
          world := (),
          trace :=
            [SetTransactionFromCls, Lease 7,
             Toggle False (Some (empty_options\<lparr> connection := Some 7 \<rparr>)),
             QueryRaw ''SET FOREIGN_KEY_CHECKS=0'' (Some (empty_options\<lparr> connection := Some 7 \<rparr>)),
             Toggle True (Some (empty_options\<lparr> connection := Some 7 \<rparr>)),
             QueryRaw ''SET FOREIGN_KEY_CHECKS=1'' (Some (empty_options\<lparr> connection := Some 7 \<rparr>)),
             Release 7] \<rparr>)
   \<and> withoutForeignKeyChecks sample_backend_env (Some 1) sample_cb
        (sample_state \<lparr> fk_checks = (\<lambda>c. True), idle = [] \<rparr>) =
      (Inl (BaseError (Some ''ConnectionError'')),
       \<lparr> heap = [empty_options\<lparr> connection := Some 5 \<rparr>, empty_options, empty_options],
         world = \<lparr> fk_checks = (\<lambda>c. True), idle = [] \<rparr>,
         trace = [SetTransactionFromCls, LeaseFailed (BaseError (Some ''ConnectionError''))] \<rparr>)"
proof -
  let ?st = "sample_state ()"
  let ?bad = "sample_env disable_fails (PlainSql ''DROP SCHEMA s'')"
  let ?o5 = "empty_options\<lparr> connection := Some 5 \<rparr>"
  let ?o53 = "empty_options\<lparr> connection := Some 5, transaction := Some 3 \<rparr>"
  let ?o3 = "empty_options\<lparr> transaction := Some 3 \<rparr>"
  let ?w = "\<lparr> fk_checks = (\<lambda>c. True), idle = [] \<rparr>"
  let ?den = "BaseError (Some ''ER_SPECIFIC_ACCESS_DENIED'')"
  have ia: "transactionFromCls sample_cls_env (copied_options ?st (Some 0)) (world ?st) = Inr ?o53"
    and ib: "transactionFromCls ?bad (copied_options ?st (Some 0)) (world ?st) = Inr ?o5"
    and ic: "transactionFromCls sample_cls_env (copied_options ?st (Some 1)) (world ?st) = Inr ?o3"
    and id: "transactionFromCls ?bad (copied_options ?st (Some 1)) (world ?st) = Inr empty_options"
    and ie: "transactionFromCls sample_backend_env (copied_options (sample_state ?w) (Some 1))
               (world (sample_state ?w)) = Inr empty_options"
    by (simp_all add: run_defs)
  have a: "connection ?o53 = Some 5
      \<and> queryRaw sample_cls_env (getToggleForeignKeyChecksQuery sample_cls_env False) (Some ?o53)
          (world ?st) = (Inr JUndefined, ())
      \<and> sample_cb (Some 5) () = (Inr (Some 5), ())
      \<and> queryRaw sample_cls_env (getToggleForeignKeyChecksQuery sample_cls_env True) (Some ?o53) ()
          = (Inr JUndefined, ())"
    by (simp add: run_defs)
  have b: "connection ?o5 = Some 5
      \<and> queryRaw ?bad (getToggleForeignKeyChecksQuery ?bad False) (Some ?o5) (world ?st)
          = (Inl ?den, ())
      \<and> queryRaw ?bad (getToggleForeignKeyChecksQuery ?bad True) (Some ?o5) () = (Inr JUndefined, ())"
    by (simp add: run_defs disable_fails_def)
  have c: "connection ?o3 = None \<and> lease sample_cls_env (world ?st) = (Inr 7, ())
      \<and> queryRaw sample_cls_env (getToggleForeignKeyChecksQuery sample_cls_env False)
          (Some (?o3\<lparr> connection := Some 7 \<rparr>)) () = (Inr JUndefined, ())
      \<and> sample_cb (Some 7) () = (Inr (Some 7), ())
      \<and> queryRaw sample_cls_env (getToggleForeignKeyChecksQuery sample_cls_env True)
          (Some (?o3\<lparr> connection := Some 7 \<rparr>)) () = (Inr JUndefined, ())"
    by (simp add: run_defs)
  have d: "connection empty_options = None \<and> lease ?bad (world ?st) = (Inr 7, ())
      \<and> queryRaw ?bad (getToggleForeignKeyChecksQuery ?bad False)
          (Some (empty_options\<lparr> connection := Some 7 \<rparr>)) () = (Inl ?den, ())
      \<and> queryRaw ?bad (getToggleForeignKeyChecksQuery ?bad True)
          (Some (empty_options\<lparr> connection := Some 7 \<rparr>)) () = (Inr JUndefined, ())"
    by (simp add: run_defs disable_fails_def)
  have e: "connection empty_options = None
      \<and> lease sample_backend_env (world (sample_state ?w)) = (Inl (BaseError (Some ''ConnectionError'')), ?w)"
    by (simp add: run_defs)
  note ta = connection_scope [OF ia refl refl refl, where cb = sample_cb,
      THEN conjunct1, THEN mp, OF a]
  note tb = connection_scope [OF ib refl refl refl, where cb = sample_cb,
      THEN conjunct2, THEN conjunct1, THEN mp, OF b]
  note tc = connection_scope [OF ic refl refl refl, where cb = sample_cb,
      THEN conjunct2, THEN conjunct2, THEN conjunct1, THEN mp, OF c]
  note td = connection_scope [OF id refl refl refl, where cb = sample_cb,
      THEN conjunct2, THEN conjunct2, THEN conjunct2, THEN conjunct1, THEN mp, OF d]
  note te = connection_scope [OF ie refl refl refl, where cb = sample_cb,
      THEN conjunct2, THEN conjunct2, THEN conjunct2, THEN conjunct2, THEN mp, OF e]
  show ?thesis
    unfolding ta tb tc td te
    by (simp add: sample_state_def sample_cls_env_def sample_env_def sample_toggle_def
        sample_backend_env_def empty_options_def)
qed

section \<open>The caller's options object\<close>

text \<open>
  C10. \<^verbatim>\<open>withoutForeignKeyChecks\<close> never writes to an object that existed before the call:
  the store after the call is the store before it followed by the objects the method
  allocated (the copy that receives the injected transaction, and the copy with the leased
  connection). In particular the caller's options object reads the same after the call.
\<close>

theorem caller_options_unchanged:
  "(\<exists>copies. heap (snd (withoutForeignKeyChecks env arg cb st)) = heap st @ copies \<and> copies \<noteq> [])
   \<and> (caller < length (heap st) \<longrightarrow>
        deref (snd (withoutForeignKeyChecks env (Some caller) cb st)) caller = deref st caller)"
proof -
  have main: "\<exists>copies. heap (snd (withoutForeignKeyChecks env arg cb st)) = heap st @ copies \<and> copies \<noteq> []"
    for arg
  proof (cases "transactionFromCls env (copied_options st arg) (world st)")
    case (Inl e)
    show ?thesis
      unfolding wfk_inject_failed [OF Inl] by (simp add: after_copy_def)
  next
    case (Inr o1)
    show ?thesis
    proof (cases "connection o1")
      case (Some c)
      show ?thesis
        unfolding wfk_direct_heap [OF Inr Some] by simp
    next
      case None
      show ?thesis
      proof (cases "lease env (world st)")
        case (Pair r w)
        show ?thesis
        proof (cases r)
          case (Inl e)
          with Pair have l: "lease env (world st) = (Inl e, w)" by simp
          show ?thesis
            unfolding wfk_lease_failed [OF Inr None l] by simp
        next
          case r: (Inr c)
          with Pair have l: "lease env (world st) = (Inr c, w)" by simp
          show ?thesis
            unfolding wfk_leased_heap [OF Inr None l] by simp
        qed
      qed
    qed
  qed
  have "deref (snd (withoutForeignKeyChecks env (Some caller) cb st)) caller = deref st caller"
    if "caller < length (heap st)"
  proof -
    obtain copies where "heap (snd (withoutForeignKeyChecks env (Some caller) cb st)) = heap st @ copies"
      using main [of "Some caller"] by blast
    then show ?thesis
      using that by (simp add: deref_def nth_append)
  qed
  with main [of arg] show ?thesis by blast
qed

theorem caller_options_unchanged_witness:
  "(0::nat) < length (heap (sample_state ()))
   \<and> deref (snd (withoutForeignKeyChecks sample_cls_env (Some 0) sample_cb (sample_state ()))) 0 =
       empty_options\<lparr> connection := Some 5 \<rparr>
   \<and> heap (snd (withoutForeignKeyChecks sample_cls_env (Some 1) sample_cb (sample_state ()))) =
       heap (sample_state ()) @
         [empty_options\<lparr> transaction := Some 3 \<rparr>,
          empty_options\<lparr> connection := Some 7, transaction := Some 3 \<rparr>]"
proof -
  have l: "(0::nat) < length (heap (sample_state ()))"
    by (simp add: sample_state_def)
  have h: "heap (snd (withoutForeignKeyChecks sample_cls_env (Some 1) sample_cb (sample_state ()))) =
       heap (sample_state ()) @
         [empty_options\<lparr> transaction := Some 3 \<rparr>,
          empty_options\<lparr> connection := Some 7, transaction := Some 3 \<rparr>]"
    by (simp add: run_defs)
  show ?thesis
    using l h caller_options_unchanged [of sample_cls_env "Some 0" sample_cb "sample_state ()" 0]
    by (simp add: deref_def sample_state_def)
qed

section \<open>Errors of the callback and of the restoration\<close>

text \<open>
  C4, as amended. In \<^verbatim>\<open>#withoutForeignKeyChecks\<close>, once the disabling toggle has succeeded
  and the callback has settled with outcome \<open>r\<close> (a value or an error), the outcome \<open>f\<close> of
  the enabling toggle decides: if it fails, its error is what the caller gets, whether the
  callback succeeded or threw, and nothing of the callback's error remains; if it succeeds,
  the caller gets \<open>r\<close>.
\<close>

theorem restoration_outcome_decides:
  assumes dis: "queryRaw env (getToggleForeignKeyChecksQuery env False) (Some (deref st a)) (world st)
                  = (Inr v, w1)"
    and cbr: "cb (connection (deref st a)) w1 = (r, w2)"
    and en: "queryRaw env (getToggleForeignKeyChecksQuery env True) (Some (deref st a)) w2
                  = (f, w3)"
  shows "fst (withoutForeignKeyChecks_inner env a cb st) =
           (case f of Inl e2 \<Rightarrow> Inl e2 | Inr v2 \<Rightarrow> r)"
  using assms
  by (simp add: withoutForeignKeyChecks_inner_def try_finally_def fk_body_def fk_restore_def
      unsafeToggleForeignKeyChecks_def call_queryRaw_def run_callback_def emit_def deref_def
      split: sum.splits)

theorem restoration_outcome_decides_witness:
  "fst (withoutForeignKeyChecks_inner (sample_env restore_fails (PlainSql ''DROP SCHEMA s'')) 0
          failing_cb (sample_state ())) = Inl (BaseError (Some ''ER_LOCK_WAIT_TIMEOUT''))
   \<and> fst (withoutForeignKeyChecks_inner (sample_env (\<lambda>sql. Inr JUndefined) (PlainSql ''DROP SCHEMA s'')) 0
          failing_cb (sample_state ())) = Inl (Error ''callback failed'')"
proof -
  let ?bad = "sample_env restore_fails (PlainSql ''DROP SCHEMA s'')"
  let ?good = "sample_env (\<lambda>sql. Inr JUndefined) (PlainSql ''DROP SCHEMA s'')"
  let ?o = "deref (sample_state ()) 0"
  have d1: "queryRaw ?bad (getToggleForeignKeyChecksQuery ?bad False) (Some ?o)
              (world (sample_state ())) = (Inr JUndefined, ())"
    by (simp add: run_defs restore_fails_def failing_cb_def)
  have c1: "failing_cb (connection ?o) () = (Inl (Error ''callback failed'') :: error + unit, ())"
    by (simp add: failing_cb_def)
  have e1: "queryRaw ?bad (getToggleForeignKeyChecksQuery ?bad True) (Some ?o) ()
              = (Inl (BaseError (Some ''ER_LOCK_WAIT_TIMEOUT'')), ())"
    by (simp add: run_defs restore_fails_def failing_cb_def)
  have d2: "queryRaw ?good (getToggleForeignKeyChecksQuery ?good False) (Some ?o)
              (world (sample_state ())) = (Inr JUndefined, ())"
    by (simp add: run_defs restore_fails_def failing_cb_def)
  have e2: "queryRaw ?good (getToggleForeignKeyChecksQuery ?good True) (Some ?o) ()
              = (Inr JUndefined, ())"
    by (simp add: run_defs restore_fails_def failing_cb_def)
  show ?thesis
    using restoration_outcome_decides [where cb = failing_cb, OF d1 c1 e1]
      restoration_outcome_decides [where cb = failing_cb, OF d2 c1 e2]
    by simp
qed

text \<open>
  C4 as stated fails: with a callback that throws ``callback failed'' and an enabling
  statement that fails, the caller gets the error of the enabling statement, not the
  callback's.
\<close>

theorem callback_error_dropped_counterexample:
  "fst (withoutForeignKeyChecks (sample_env restore_fails (PlainSql ''DROP SCHEMA s'')) (Some 0)
          failing_cb (sample_state ())) = Inl (BaseError (Some ''ER_LOCK_WAIT_TIMEOUT''))
   \<and> fst (withoutForeignKeyChecks (sample_env restore_fails (PlainSql ''DROP SCHEMA s'')) (Some 0)
          failing_cb (sample_state ())) \<noteq> Inl (Error ''callback failed'')"
  by (simp add: run_defs restore_fails_def failing_cb_def)

section \<open>describeTable: the table that is not there\<close>

lemma describeTable_fst:
  "fst (describeTable env tn d st) =
     describe_outcome (fst (apply_overrides (extractTableDetails env tn) d))
       (fst (queryRaw env
               (describeTableQuery env (fst (apply_overrides (extractTableDetails env tn) d)))
               (Some ((spread_describe d)\<lparr> qtype := Some DESCRIBE \<rparr>)) (world st)))"
  by (simp add: describeTable_def call_queryRaw_def emit_def Let_def split: prod.splits)

lemma describeTable_trace:
  "trace (snd (describeTable env tn d st)) =
     trace st @ map Warn (snd (apply_overrides (extractTableDetails env tn) d))
       @ [QueryRaw (describeTableQuery env (fst (apply_overrides (extractTableDetails env tn) d)))
            (Some ((spread_describe d)\<lparr> qtype := Some DESCRIBE \<rparr>))]"
  by (simp add: describeTable_def call_queryRaw_def emit_def Let_def split: prod.splits)

lemmas describe_defs =
  describeTable_def call_queryRaw_def emit_def apply_overrides_def truthy_str_def
  spread_describe_def describe_outcome_def describe_catch_def sample_env_def sample_extract_def
  sample_describe_def empty_state_def empty_options_def users_public_def columns_env_def
  sample_legacy_def Let_def

text \<open>
  C2. Take two backends behind the same generator: on \<open>envA\<close> the DESCRIBE query returns
  empty data, on \<open>envB\<close> it throws a \<^verbatim>\<open>BaseError\<close> whose cause has the code
  \<^verbatim>\<open>ER_NO_SUCH_TABLE\<close>. For every table reference and second argument, \<^verbatim>\<open>describeTable\<close>
  fails on both with one and the same error, the \<^verbatim>\<open>Error\<close> whose message is ``No description
  found for table ...'' for the resolved table.
\<close>

theorem describeTable_not_found_same_error:
  assumes gen: "extractTableDetails envB = extractTableDetails envA"
      "describeTableQuery envB = describeTableQuery envA"
    and tbl: "table = fst (apply_overrides (extractTableDetails envA tn) d)"
    and qo: "qo = Some ((spread_describe d)\<lparr> qtype := Some DESCRIBE \<rparr>)"
    and emptyA: "queryRaw envA (describeTableQuery envA table) qo (world stA) = (Inr data, wA)"
      "isEmpty data"
    and errB: "queryRaw envB (describeTableQuery envA table) qo (world stB) =
                 (Inl (BaseError (Some ''ER_NO_SUCH_TABLE'')), wB)"
  shows "fst (describeTable envA tn d stA) = Inl (Error (not_found_message table))
       \<and> fst (describeTable envB tn d stB) = Inl (Error (not_found_message table))"
  using assms
  by (simp add: describeTable_fst describe_outcome_def describe_catch_def)

theorem describeTable_not_found_same_error_witness:
  "fst (describeTable (sample_env (\<lambda>sql. Inr (JObj [])) (PlainSql ''DROP SCHEMA s''))
          (TnString ''users'') DescribeUndefined (empty_state ())) =
     Inl (Error ''No description found for table users. Check the table name and schema; remember, they _are_ case sensitive.'')
   \<and> fst (describeTable (sample_env (\<lambda>sql. Inl (BaseError (Some ''ER_NO_SUCH_TABLE''))) (PlainSql ''DROP SCHEMA s''))
          (TnString ''users'') DescribeUndefined (empty_state ())) =
     Inl (Error ''No description found for table users. Check the table name and schema; remember, they _are_ case sensitive.'')"
proof -
  let ?A = "sample_env (\<lambda>sql. Inr (JObj [])) (PlainSql ''DROP SCHEMA s'')"
  let ?B = "sample_env (\<lambda>sql. Inl (BaseError (Some ''ER_NO_SUCH_TABLE''))) (PlainSql ''DROP SCHEMA s'')"
  let ?t = "fst (apply_overrides (extractTableDetails ?A (TnString ''users'')) DescribeUndefined)"
  let ?qo = "Some ((spread_describe DescribeUndefined)\<lparr> qtype := Some DESCRIBE \<rparr>)"
  have g1: "extractTableDetails ?B = extractTableDetails ?A"
    and g2: "describeTableQuery ?B = describeTableQuery ?A"
    by (simp_all add: sample_env_def)
  have a: "queryRaw ?A (describeTableQuery ?A ?t) ?qo (world (empty_state ())) = (Inr (JObj []), ())"
    by (simp add: sample_env_def)
  have e: "isEmpty (JObj [])"
    by simp
  have b: "queryRaw ?B (describeTableQuery ?A ?t) ?qo (world (empty_state ())) =
             (Inl (BaseError (Some ''ER_NO_SUCH_TABLE'')), ())"
    by (simp add: sample_env_def)
  have m: "not_found_message ?t =
      ''No description found for table users. Check the table name and schema; remember, they _are_ case sensitive.''"
    by (simp add: not_found_message_def apply_overrides_def sample_env_def sample_extract_def
        truthy_str_def)
  show ?thesis
    using describeTable_not_found_same_error [OF g1 g2 refl refl a e b]
    unfolding m by simp
qed

section \<open>describeTable: deprecated parameters\<close>

text \<open>
  C7, as amended. A legacy string as second argument calls \<^verbatim>\<open>noSchemaParameter\<close> and the
  string becomes the schema of the table that is described. An options object with a
  non-empty \<^verbatim>\<open>schema\<close> calls \<^verbatim>\<open>noSchemaParameter\<close> and that schema replaces the table's;
  one with a non-empty \<^verbatim>\<open>schemaDelimiter\<close> calls \<^verbatim>\<open>noSchemaDelimiterParameter\<close> and that
  delimiter replaces the table's. In every case the query is still made, and the outcome of
  the call is the outcome of that query (as the \<^verbatim>\<open>try\<close> and \<^verbatim>\<open>catch\<close> blocks pass it on): the
  deprecated parameter adds no failure.
\<close>

theorem describeTable_deprecated_paths:
  "trace (snd (describeTable env tn (DescribeString s) st)) =
     trace st @
     [Warn NoSchemaParameter,
      QueryRaw (describeTableQuery env ((extractTableDetails env tn)\<lparr> schema := Some s \<rparr>))
        (Some ((spread_describe (DescribeString s))\<lparr> qtype := Some DESCRIBE \<rparr>))]
   \<and> (opt_schema o1 = Some s \<and> s \<noteq> [] \<longrightarrow>
        (\<exists>t ws. trace (snd (describeTable env tn (DescribeObject o1) st)) =
                  trace st @ Warn NoSchemaParameter # ws
                    @ [QueryRaw (describeTableQuery env t) (Some (o1\<lparr> qtype := Some DESCRIBE \<rparr>))]
               \<and> schema t = Some s \<and> tableName t = tableName (extractTableDetails env tn)))
   \<and> (schemaDelimiter o1 = Some dl \<and> dl \<noteq> [] \<longrightarrow>
        (\<exists>t ws. trace (snd (describeTable env tn (DescribeObject o1) st)) =
                  trace st @ ws
                    @ [Warn NoSchemaDelimiterParameter,
                       QueryRaw (describeTableQuery env t) (Some (o1\<lparr> qtype := Some DESCRIBE \<rparr>))]
               \<and> delimiter t = Some dl \<and> tableName t = tableName (extractTableDetails env tn)))
   \<and> fst (describeTable env tn d st) =
       describe_outcome (fst (apply_overrides (extractTableDetails env tn) d))
         (fst (queryRaw env
                 (describeTableQuery env (fst (apply_overrides (extractTableDetails env tn) d)))
                 (Some ((spread_describe d)\<lparr> qtype := Some DESCRIBE \<rparr>)) (world st)))"
proof (intro conjI impI)
  show "trace (snd (describeTable env tn (DescribeString s) st)) =
     trace st @
     [Warn NoSchemaParameter,
      QueryRaw (describeTableQuery env ((extractTableDetails env tn)\<lparr> schema := Some s \<rparr>))
        (Some ((spread_describe (DescribeString s))\<lparr> qtype := Some DESCRIBE \<rparr>))]"
    by (simp add: describeTable_trace apply_overrides_def)
next
  assume a: "opt_schema o1 = Some s \<and> s \<noteq> []"
  let ?t = "fst (apply_overrides (extractTableDetails env tn) (DescribeObject o1))"
  let ?ws = "map Warn (tl (snd (apply_overrides (extractTableDetails env tn) (DescribeObject o1))))"
  have "trace (snd (describeTable env tn (DescribeObject o1) st)) =
                  trace st @ Warn NoSchemaParameter # ?ws
                    @ [QueryRaw (describeTableQuery env ?t) (Some (o1\<lparr> qtype := Some DESCRIBE \<rparr>))]
               \<and> schema ?t = Some s \<and> tableName ?t = tableName (extractTableDetails env tn)"
    using a
    by (simp add: describeTable_trace apply_overrides_def truthy_str_def spread_describe_def)
  then show "\<exists>t ws. trace (snd (describeTable env tn (DescribeObject o1) st)) =
                  trace st @ Warn NoSchemaParameter # ws
                    @ [QueryRaw (describeTableQuery env t) (Some (o1\<lparr> qtype := Some DESCRIBE \<rparr>))]
               \<and> schema t = Some s \<and> tableName t = tableName (extractTableDetails env tn)"
    by blast
next
  assume a: "schemaDelimiter o1 = Some dl \<and> dl \<noteq> []"
  let ?t = "fst (apply_overrides (extractTableDetails env tn) (DescribeObject o1))"
  let ?ws = "map Warn (butlast (snd (apply_overrides (extractTableDetails env tn) (DescribeObject o1))))"
  have "trace (snd (describeTable env tn (DescribeObject o1) st)) =
                  trace st @ ?ws
                    @ [Warn NoSchemaDelimiterParameter,
                       QueryRaw (describeTableQuery env ?t) (Some (o1\<lparr> qtype := Some DESCRIBE \<rparr>))]
               \<and> delimiter ?t = Some dl \<and> tableName ?t = tableName (extractTableDetails env tn)"
    using a
    by (simp add: describeTable_trace apply_overrides_def truthy_str_def spread_describe_def)
  then show "\<exists>t ws. trace (snd (describeTable env tn (DescribeObject o1) st)) =
                  trace st @ ws
                    @ [Warn NoSchemaDelimiterParameter,
                       QueryRaw (describeTableQuery env t) (Some (o1\<lparr> qtype := Some DESCRIBE \<rparr>))]
               \<and> delimiter t = Some dl \<and> tableName t = tableName (extractTableDetails env tn)"
    by blast
next
  show "fst (describeTable env tn d st) =
       describe_outcome (fst (apply_overrides (extractTableDetails env tn) d))
         (fst (queryRaw env
                 (describeTableQuery env (fst (apply_overrides (extractTableDetails env tn) d)))
                 (Some ((spread_describe d)\<lparr> qtype := Some DESCRIBE \<rparr>)) (world st)))"
    by (rule describeTable_fst)
qed

theorem describeTable_deprecated_paths_witness:
  "(opt_schema sample_legacy = Some ''archive'' \<and> ''archive'' \<noteq> [])
   \<and> (schemaDelimiter sample_legacy = Some ''_'' \<and> ''_'' \<noteq> [])
   \<and> trace (snd (describeTable columns_env (TnTable users_public) (DescribeString ''archive'')
                   (empty_state ()))) =
       [Warn NoSchemaParameter,
        QueryRaw ''DESCRIBE archive.users''
          (Some ((spread_describe (DescribeString ''archive''))\<lparr> qtype := Some DESCRIBE \<rparr>))]
   \<and> (\<exists>t ws. trace (snd (describeTable columns_env (TnTable users_public)
                            (DescribeObject sample_legacy) (empty_state ()))) =
                Warn NoSchemaParameter # ws
                  @ [QueryRaw (sample_describe t) (Some (sample_legacy\<lparr> qtype := Some DESCRIBE \<rparr>))]
              \<and> schema t = Some ''archive'' \<and> tableName t = ''users'')
   \<and> (\<exists>t ws. trace (snd (describeTable columns_env (TnTable users_public)
                            (DescribeObject sample_legacy) (empty_state ()))) =
                ws @ [Warn NoSchemaDelimiterParameter,
                      QueryRaw (sample_describe t) (Some (sample_legacy\<lparr> qtype := Some DESCRIBE \<rparr>))]
              \<and> delimiter t = Some ''_'' \<and> tableName t = ''users'')
   \<and> fst (describeTable columns_env (TnTable users_public) (DescribeObject sample_legacy)
             (empty_state ())) = Inr (JObj [(''id'', JStr ''INTEGER'')])"
proof -
  have h1: "opt_schema sample_legacy = Some ''archive'' \<and> ''archive'' \<noteq> []"
    and h2: "schemaDelimiter sample_legacy = Some ''_'' \<and> ''_'' \<noteq> []"
    by (simp_all add: sample_legacy_def)
  have g: "describeTableQuery columns_env = sample_describe"
    "tableName (extractTableDetails columns_env (TnTable users_public)) = ''users''"
    "(extractTableDetails columns_env (TnTable users_public))\<lparr> schema := Some ''archive'' \<rparr> =
       \<lparr> tableName = ''users'', schema = Some ''archive'', delimiter = None \<rparr>"
    "trace (empty_state ()) = []"
    by (simp_all add: columns_env_def sample_env_def sample_extract_def users_public_def
        empty_state_def)
  have r: "fst (describeTable columns_env (TnTable users_public) (DescribeObject sample_legacy)
             (empty_state ())) = Inr (JObj [(''id'', JStr ''INTEGER'')])"
    by (simp add: describe_defs)
  have q: "sample_describe \<lparr> tableName = ''users'', schema = Some ''archive'', delimiter = None \<rparr> =
             ''DESCRIBE archive.users''"
    by (simp add: sample_describe_def)
  from describeTable_deprecated_paths [of columns_env "TnTable users_public" "''archive''"
      "empty_state ()" sample_legacy "''_''" "DescribeObject sample_legacy"] h1 h2
  show ?thesis
    unfolding g q r by simp
qed

text \<open>
  C7 as stated fails for an options object that carries an empty \<^verbatim>\<open>schema\<close>: no
  deprecation function is called and the schema of the table reference stays as it was.
\<close>

theorem describeTable_empty_schema_counterexample:
  "trace (snd (describeTable columns_env (TnTable users_public)
                 (DescribeObject (empty_options\<lparr> opt_schema := Some [] \<rparr>)) (empty_state ()))) =
     [QueryRaw ''DESCRIBE public.users''
        (Some (empty_options\<lparr> opt_schema := Some [], qtype := Some DESCRIBE \<rparr>))]
   \<and> Warn NoSchemaParameter \<notin> set (trace (snd (describeTable columns_env (TnTable users_public)
                 (DescribeObject (empty_options\<lparr> opt_schema := Some [] \<rparr>)) (empty_state ()))))"
  by (simp add: describe_defs)

section \<open>showAllSchemas\<close>

lemma flatMap_row_names:
  "map row_name rows = map Some names \<Longrightarrow> flatMap schema_name_of rows = Inr (map JStr names)"
proof (induction rows arbitrary: names)
  case Nil
  then show ?case by simp
next
  case (Cons r rows)
  then obtain n ns where names: "names = n # ns" and r: "row_name r = Some n"
    and rest: "map row_name rows = map Some ns"
    by (cases names) auto
  have "schema_name_of r = Inr (JStr n)"
    using r
    by (cases r) (auto simp: schema_name_of_def split: option.splits jsval.splits if_splits)
  with Cons.IH [OF rest] names show ?case
    by simp
qed

lemmas schema_defs =
  showAllSchemas_def call_queryRaw_def emit_def flatten_schemas_def schema_name_of_def
  sample_env_def empty_state_def spread_def empty_options_def

text \<open>
  C6, as amended. When the listing query returns rows each of which is a bare string or a
  mapping whose \<^verbatim>\<open>schema_name\<close> is a non-empty string, \<^verbatim>\<open>showAllSchemas\<close> returns the flat
  sequence of those strings, in order: the mapping contributes its \<^verbatim>\<open>schema_name\<close>, the bare
  string itself.
\<close>

theorem showAllSchemas_flattens:
  assumes "queryRaw env (listSchemasQuery env opts)
             (Some ((spread opts)\<lparr> raw := Some True, qtype := Some SELECT \<rparr>)) (world st)
           = (Inr (JArr rows), w)"
    and "map row_name rows = map Some names"
  shows "fst (showAllSchemas env opts st) = Inr (map JStr names)"
  using assms(1) flatMap_row_names [OF assms(2)]
  by (simp add: showAllSchemas_def call_queryRaw_def emit_def flatten_schemas_def)

theorem showAllSchemas_flattens_witness:
  "fst (showAllSchemas
          (sample_env (\<lambda>sql. Inr (JArr [JObj [(''schema_name'', JStr ''public'')],
                                          JObj [(''schema_name'', JStr ''app'')]]))
             (PlainSql ''DROP SCHEMA s''))
          None (empty_state ())) = Inr [JStr ''public'', JStr ''app'']
   \<and> fst (showAllSchemas
          (sample_env (\<lambda>sql. Inr (JArr [JStr ''public'', JStr ''app''])) (PlainSql ''DROP SCHEMA s''))
          None (empty_state ())) = Inr [JStr ''public'', JStr ''app'']"
proof -
  let ?rowsA = "[JObj [(''schema_name'', JStr ''public'')], JObj [(''schema_name'', JStr ''app'')]]"
  let ?rowsB = "[JStr ''public'', JStr ''app'']"
  let ?A = "sample_env (\<lambda>sql. Inr (JArr ?rowsA)) (PlainSql ''DROP SCHEMA s'')"
  let ?B = "sample_env (\<lambda>sql. Inr (JArr ?rowsB)) (PlainSql ''DROP SCHEMA s'')"
  have a: "queryRaw ?A (listSchemasQuery ?A None)
             (Some ((spread None)\<lparr> raw := Some True, qtype := Some SELECT \<rparr>))
             (world (empty_state ())) = (Inr (JArr ?rowsA), ())"
    by (simp add: sample_env_def)
  have b: "queryRaw ?B (listSchemasQuery ?B None)
             (Some ((spread None)\<lparr> raw := Some True, qtype := Some SELECT \<rparr>))
             (world (empty_state ())) = (Inr (JArr ?rowsB), ())"
    by (simp add: sample_env_def)
  have na: "map row_name ?rowsA = map Some [''public'', ''app'']"
    by simp
  have nb: "map row_name ?rowsB = map Some [''public'', ''app'']"
    by simp
  show ?thesis
    using showAllSchemas_flattens [OF a na] showAllSchemas_flattens [OF b nb]
    by simp
qed

text \<open>
  C6 as stated fails for a mapping whose \<^verbatim>\<open>schema_name\<close> is the empty string: the row
  contributes itself, a mapping, not the value under the key.
\<close>

theorem showAllSchemas_empty_name_counterexample:
  "fst (showAllSchemas
          (sample_env (\<lambda>sql. Inr (JArr [JObj [(''schema_name'', JStr [])]])) (PlainSql ''DROP SCHEMA s''))
          None (empty_state ())) = Inr [JObj [(''schema_name'', JStr [])]]
   \<and> fst (showAllSchemas
          (sample_env (\<lambda>sql. Inr (JArr [JObj [(''schema_name'', JStr [])]])) (PlainSql ''DROP SCHEMA s''))
          None (empty_state ())) \<noteq> Inr [JStr []]"
  by (simp add: schema_defs)

section \<open>dropSchema\<close>






section \<open>Enabling foreign key checks twice\<close>

lemma spec_execute_enable:
  "spec_execute gen c (gen True) w =
     (Inr (JArr [JArr [], JNum 0]), w\<lparr> fk_checks := (fk_checks w)(c := True) \<rparr>)"
  by (simp add: spec_execute_def)

lemma toggle_enable_on_backend:
  assumes "queryRaw env = spec_queryRaw (getToggleForeignKeyChecksQuery env) bound"
    and "connection o1 = Some c"
  shows "fst (unsafeToggleForeignKeyChecks env True (Some o1) st) = Inr ()"
    and "world (snd (unsafeToggleForeignKeyChecks env True (Some o1) st)) =
           (world st)\<lparr> fk_checks := (fk_checks (world st))(c := True) \<rparr>"
  using assms
  by (simp_all add: unsafeToggleForeignKeyChecks_def call_queryRaw_def emit_def spec_queryRaw_def
      spread_def spec_execute_enable)

text \<open>
  C9. On the backend modelled from the spec, with options that name a connection \<open>c\<close>, two
  calls of \<^verbatim>\<open>unsafeToggleForeignKeyChecks(true, options)\<close> in a row both succeed, the checks
  of \<open>c\<close> are on afterwards, and the second call leaves the backend as the first left it.
\<close>

theorem toggle_enable_twice:
  assumes "queryRaw env = spec_queryRaw (getToggleForeignKeyChecksQuery env) bound"
    and "connection o1 = Some c"
    and "st1 = snd (unsafeToggleForeignKeyChecks env True (Some o1) st)"
    and "st2 = snd (unsafeToggleForeignKeyChecks env True (Some o1) st1)"
  shows "fst (unsafeToggleForeignKeyChecks env True (Some o1) st) = Inr ()
       \<and> fst (unsafeToggleForeignKeyChecks env True (Some o1) st1) = Inr ()
       \<and> fk_checks (world st2) c
       \<and> world st2 = world st1"
  using assms(3,4) toggle_enable_on_backend [OF assms(1,2)]
  by simp

theorem toggle_enable_twice_witness:
  "fst (unsafeToggleForeignKeyChecks sample_backend_env True (Some (empty_options\<lparr> connection := Some 5 \<rparr>))
          (empty_state checks_off)) = Inr ()
   \<and> fst (unsafeToggleForeignKeyChecks sample_backend_env True (Some (empty_options\<lparr> connection := Some 5 \<rparr>))
          (snd (unsafeToggleForeignKeyChecks sample_backend_env True
                  (Some (empty_options\<lparr> connection := Some 5 \<rparr>)) (empty_state checks_off)))) = Inr ()
   \<and> fk_checks (world (snd (unsafeToggleForeignKeyChecks sample_backend_env True
          (Some (empty_options\<lparr> connection := Some 5 \<rparr>))
          (snd (unsafeToggleForeignKeyChecks sample_backend_env True
                  (Some (empty_options\<lparr> connection := Some 5 \<rparr>)) (empty_state checks_off)))))) 5
   \<and> \<not> fk_checks (world (empty_state checks_off)) 5"
proof -
  have q: "queryRaw sample_backend_env =
             spec_queryRaw (getToggleForeignKeyChecksQuery sample_backend_env) (\<lambda>t. t)"
    by (simp add: sample_backend_env_def)
  have c: "connection (empty_options\<lparr> connection := Some 5 \<rparr>) = Some 5"
    by simp
  have n: "\<not> fk_checks (world (empty_state checks_off)) 5"
    by (simp add: empty_state_def checks_off_def)
  show ?thesis
    using n toggle_enable_twice [OF q c refl refl, of "empty_state checks_off"]
    by blast
qed

end
